theory Spec2Isabelle
  imports Main "HOL-Library.Word"
begin

unbundle bit_operations_syntax

text \<open>
  The functions-framework buildpack for Go (\<^verbatim>\<open>cmd/go/functions_framework/main.go\<close>) turns a
  function into an application: it moves the function source aside, chooses between a build
  with a go.mod file and a build from vendored dependencies, wires the function into a
  generated module or a legacy workspace, and renders the entry point \<^verbatim>\<open>main.go\<close> from one of
  two templates chosen by the version of the functions framework.

  This theory embeds the functions of that file as state-passing functions over the history of
  the calls the build makes, with the outside world (commands, files, the toolchain) as a
  parameter, and proves the properties numbered C1 to C10 about them.
\<close>

section \<open>Go strings as byte lists\<close>

text \<open>
  A Go string is a sequence of bytes; \<^typ>\<open>string\<close> is a list of 8-bit characters, so
  the two agree. Every separator and character set the program searches for is ASCII, and an
  ASCII byte never occurs inside a multi-byte UTF-8 sequence, so the rune-wise library
  functions used by the program (\<^verbatim>\<open>strings.Split\<close>, \<^verbatim>\<open>strings.Contains\<close>, ...) coincide with
  the byte-wise functions below.
\<close>

fun HasPrefix :: "string \<Rightarrow> string \<Rightarrow> bool" where
  "HasPrefix s [] = True"
| "HasPrefix [] (p # ps) = False"
| "HasPrefix (c # cs) (p # ps) = (c = p \<and> HasPrefix cs ps)"

text \<open>\<^verbatim>\<open>strings.Contains(s, substr)\<close>: \<open>substr\<close> occurs somewhere within \<open>s\<close>.\<close>

fun Contains :: "string \<Rightarrow> string \<Rightarrow> bool" where
  "Contains [] sub = (sub = [])"
| "Contains (c # cs) sub = (HasPrefix (c # cs) sub \<or> Contains cs sub)"

text \<open>\<^verbatim>\<open>strings.ContainsAny(s, chars)\<close> for an ASCII character set.\<close>

definition ContainsAny :: "string \<Rightarrow> string \<Rightarrow> bool" where
  "ContainsAny s chars = list_ex (\<lambda>c. c \<in> set chars) s"

text \<open>\<^verbatim>\<open>strings.TrimPrefix(s, prefix)\<close>.\<close>

definition TrimPrefix :: "string \<Rightarrow> string \<Rightarrow> string" where
  "TrimPrefix s p = (if HasPrefix s p then drop (length p) s else s)"

text \<open>
  \<^verbatim>\<open>strings.Split(s, sep)\<close> with a one-byte separator. The result is never empty: a string
  without the separator (the empty string too) gives one segment.
\<close>

fun Split :: "string \<Rightarrow> char \<Rightarrow> string list" where
  "Split [] sep = [[]]"
| "Split (c # cs) sep =
     (if c = sep then [] # Split cs sep
      else (case Split cs sep of
              [] \<Rightarrow> [[c]]
            | p # ps \<Rightarrow> (c # p) # ps))"

text \<open>
  \<^verbatim>\<open>strings.SplitN(s, sep, n)\<close> with a one-byte separator and \<open>n > 0\<close>: at most \<open>n\<close>
  segments, the last one being the unsplit remainder.
\<close>

fun SplitN :: "string \<Rightarrow> char \<Rightarrow> nat \<Rightarrow> string list" where
  "SplitN s sep 0 = []"
| "SplitN s sep (Suc 0) = [s]"
| "SplitN [] sep (Suc (Suc n)) = [[]]"
| "SplitN (c # cs) sep (Suc (Suc n)) =
     (if c = sep then [] # SplitN cs sep (Suc n)
      else (case SplitN cs sep (Suc (Suc n)) of
              [] \<Rightarrow> [[c]]
            | p # ps \<Rightarrow> (c # p) # ps))"

text \<open>\<^verbatim>\<open>strings.Join(elems, sep)\<close>.\<close>

fun Join :: "string list \<Rightarrow> string \<Rightarrow> string" where
  "Join [] sep = []"
| "Join [e] sep = e"
| "Join (e # es) sep = e @ sep @ Join es sep"

text \<open>
  \<^verbatim>\<open>strings.TrimSpace\<close> removes leading and trailing white space as \<^verbatim>\<open>unicode.IsSpace\<close>
  defines it: the ASCII characters tab, line feed, vertical tab, form feed, carriage return and
  space, and the code points U+0085, U+00A0, U+1680, U+2000 to U+200A, U+2028, U+2029, U+202F,
  U+205F and U+3000, listed here by their UTF-8 encodings.
\<close>

definition space_encodings :: "string list" where
  "space_encodings =
    [[CHR 0x09], [CHR 0x0A], [CHR 0x0B], [CHR 0x0C], [CHR 0x0D], [CHR 0x20],
     [CHR 0xC2, CHR 0x85], [CHR 0xC2, CHR 0xA0],
     [CHR 0xE1, CHR 0x9A, CHR 0x80],
     [CHR 0xE2, CHR 0x80, CHR 0x80], [CHR 0xE2, CHR 0x80, CHR 0x81],
     [CHR 0xE2, CHR 0x80, CHR 0x82], [CHR 0xE2, CHR 0x80, CHR 0x83],
     [CHR 0xE2, CHR 0x80, CHR 0x84], [CHR 0xE2, CHR 0x80, CHR 0x85],
     [CHR 0xE2, CHR 0x80, CHR 0x86], [CHR 0xE2, CHR 0x80, CHR 0x87],
     [CHR 0xE2, CHR 0x80, CHR 0x88], [CHR 0xE2, CHR 0x80, CHR 0x89],
     [CHR 0xE2, CHR 0x80, CHR 0x8A],
     [CHR 0xE2, CHR 0x80, CHR 0xA8], [CHR 0xE2, CHR 0x80, CHR 0xA9],
     [CHR 0xE2, CHR 0x80, CHR 0xAF],
     [CHR 0xE2, CHR 0x81, CHR 0x9F],
     [CHR 0xE3, CHR 0x80, CHR 0x80]]"

text \<open>
  Stripping leading runes of a set given by its encodings. Decoding the first rune of a
  string yields a rune of the set exactly when the string starts with that rune's (unique,
  valid) encoding, so matching encodings as prefixes is what \<^verbatim>\<open>strings.TrimLeftFunc\<close> does;
  \<^verbatim>\<open>strings.TrimRightFunc\<close> does the same from the end.
\<close>

function trim_left_runes :: "string list \<Rightarrow> string \<Rightarrow> string" where
  "trim_left_runes encs s =
     (case find (HasPrefix s) encs of
        None \<Rightarrow> s
      | Some e \<Rightarrow> if e = [] \<or> s = [] then s else trim_left_runes encs (drop (length e) s))"
  by pat_completeness auto
termination
  by (relation "measure (\<lambda>(encs, s). length s)") auto

declare trim_left_runes.simps [simp del]

definition trim_right_runes :: "string list \<Rightarrow> string \<Rightarrow> string" where
  "trim_right_runes encs s = rev (trim_left_runes (map rev encs) (rev s))"

definition TrimSpace :: "string \<Rightarrow> string" where
  "TrimSpace s = trim_right_runes space_encodings (trim_left_runes space_encodings s)"

text \<open>
  \<^verbatim>\<open>filepath.Join\<close> on Unix: the elements from the first non-empty one on are joined with
  slashes and the result is cleaned lexically (\<^verbatim>\<open>filepath.Clean\<close>): empty and \<^verbatim>\<open>.\<close> elements
  are dropped, a \<^verbatim>\<open>..\<close> element removes the element before it, or is dropped at the root, or
  is kept at the start of a relative path.
\<close>

fun clean_elems :: "bool \<Rightarrow> string list \<Rightarrow> string list \<Rightarrow> string list" where
  "clean_elems rooted acc [] = rev acc"
| "clean_elems rooted acc (e # es) =
     (if e = [] \<or> e = ''.'' then clean_elems rooted acc es
      else if e = ''..'' then
        (case acc of
           [] \<Rightarrow> if rooted then clean_elems rooted [] es else clean_elems rooted [''..''] es
         | a # as \<Rightarrow> if a = ''..'' then clean_elems rooted (''..'' # acc) es
                     else clean_elems rooted as es)
      else clean_elems rooted (e # acc) es)"

definition Clean :: "string \<Rightarrow> string" where
  "Clean path =
     (if path = [] then ''.''
      else
        let rooted = (hd path = CHR ''/'');
            out = Join (clean_elems rooted [] (Split path CHR ''/'')) ''/''
        in if rooted then ''/'' @ out else if out = [] then ''.'' else out)"

definition filepath_Join :: "string list \<Rightarrow> string" where
  "filepath_Join elem =
     (case dropWhile (\<lambda>e. e = []) elem of
        [] \<Rightarrow> []
      | es \<Rightarrow> Clean (Join es ''/''))"

section \<open>Semantic versions\<close>

text \<open>
  The program parses and compares versions with the third-party package
  \<^verbatim>\<open>github.com/blang/semver\<close>; only \<^verbatim>\<open>ParseTolerant\<close> and \<^verbatim>\<open>GE\<close> are called. The definitions
  below follow that package (release 3.5): \<^verbatim>\<open>ParseTolerant\<close> trims white space and a leading
  \<^verbatim>\<open>v\<close>, pads a version of one or two numeric parts with zeros and hands over to \<^verbatim>\<open>Parse\<close>;
  \<^verbatim>\<open>Compare\<close> orders by major, minor and patch number and then puts a version with a
  pre-release part before the same version without one, as the Semantic Versioning
  specification requires. (Later releases of the package also strip leading zeros from the
  numeric parts before parsing; no version string considered below has any.)
\<close>

datatype semver_error =
    ErrVersionEmpty
  | ErrShortVersionMeta
  | ErrNoMajorMinorPatch
  | ErrInvalidCharacters string string
  | ErrLeadingZeroes string string
  | ErrParseUint string
  | ErrPrereleaseEmpty
  | ErrBuildMetaEmpty

record PRVersion =
  VersionStr :: string
  VersionNum :: nat
  IsNum :: bool

record Version =
  Major :: nat
  Minor :: nat
  Patch :: nat
  Pre :: "PRVersion list"
  BuildMeta :: "string list"

definition numbers :: string where
  "numbers = ''0123456789''"

definition alphanum :: string where
  "alphanum = ''abcdefghijklmnopqrstuvwxyzABCDEFGHIJKLMNOPQRSTUVWXYZ-'' @ numbers"

definition containsOnly :: "string \<Rightarrow> string \<Rightarrow> bool" where
  "containsOnly s cs = list_all (\<lambda>c. c \<in> set cs) s"

definition hasLeadingZeroes :: "string \<Rightarrow> bool" where
  "hasLeadingZeroes s = (length s > 1 \<and> hd s = CHR ''0'')"

text \<open>
  \<^verbatim>\<open>strconv.ParseUint(s, 10, 64)\<close>: a non-empty string of decimal digits whose value fits
  64 bits; anything else is an error.
\<close>

definition digit_val :: "char \<Rightarrow> nat" where
  "digit_val c = of_char c - of_char CHR ''0''"

definition ParseUint :: "string \<Rightarrow> semver_error + nat" where
  "ParseUint s =
     (if s = [] \<or> \<not> containsOnly s numbers then Inl (ErrParseUint s)
      else
        let n = foldl (\<lambda>acc c. 10 * acc + digit_val c) 0 s
        in if n < 2 ^ 64 then Inr n else Inl (ErrParseUint s))"

definition parse_number :: "string \<Rightarrow> string \<Rightarrow> semver_error + nat" where
  "parse_number what s =
     (if \<not> containsOnly s numbers then Inl (ErrInvalidCharacters what s)
      else if hasLeadingZeroes s then Inl (ErrLeadingZeroes what s)
      else ParseUint s)"

definition NewPRVersion :: "string \<Rightarrow> semver_error + PRVersion" where
  "NewPRVersion s =
     (if s = [] then Inl ErrPrereleaseEmpty
      else if containsOnly s numbers then
        (if hasLeadingZeroes s then Inl (ErrLeadingZeroes ''prerelease'' s)
         else (case ParseUint s of
                 Inl e \<Rightarrow> Inl e
               | Inr num \<Rightarrow> Inr \<lparr>VersionStr = [], VersionNum = num, IsNum = True\<rparr>))
      else if containsOnly s alphanum then
        Inr \<lparr>VersionStr = s, VersionNum = 0, IsNum = False\<rparr>
      else Inl (ErrInvalidCharacters ''prerelease'' s))"

fun parse_prerelease :: "string list \<Rightarrow> semver_error + PRVersion list" where
  "parse_prerelease [] = Inr []"
| "parse_prerelease (p # ps) =
     (case NewPRVersion p of
        Inl e \<Rightarrow> Inl e
      | Inr v \<Rightarrow> (case parse_prerelease ps of Inl e \<Rightarrow> Inl e | Inr vs \<Rightarrow> Inr (v # vs)))"

fun parse_build :: "string list \<Rightarrow> semver_error + string list" where
  "parse_build [] = Inr []"
| "parse_build (b # bs) =
     (if b = [] then Inl ErrBuildMetaEmpty
      else if \<not> containsOnly b alphanum then Inl (ErrInvalidCharacters ''build meta data'' b)
      else (case parse_build bs of Inl e \<Rightarrow> Inl e | Inr vs \<Rightarrow> Inr (b # vs)))"

text \<open>
  Cutting a string at the first occurrence of a byte (\<^verbatim>\<open>strings.IndexRune\<close> and two slices):
  the part before it, and the part after it when the byte occurs.
\<close>

definition cut_at :: "char \<Rightarrow> string \<Rightarrow> string \<times> string option" where
  "cut_at c s =
     (if c \<in> set s then (takeWhile (\<lambda>x. x \<noteq> c) s, Some (tl (dropWhile (\<lambda>x. x \<noteq> c) s)))
      else (s, None))"

definition Parse :: "string \<Rightarrow> semver_error + Version" where
  "Parse s =
     (if s = [] then Inl ErrVersionEmpty
      else
        (case SplitN s CHR ''.'' 3 of
           [p0, p1, p2] \<Rightarrow>
             (case parse_number ''major number'' p0 of
                Inl e \<Rightarrow> Inl e
              | Inr major \<Rightarrow>
             (case parse_number ''minor number'' p1 of
                Inl e \<Rightarrow> Inl e
              | Inr minor \<Rightarrow>
                  let (patchStr1, build) = cut_at CHR ''+'' p2;
                      (patchStr, prerelease) = cut_at CHR ''-'' patchStr1
                  in
             (case parse_number ''patch number'' patchStr of
                Inl e \<Rightarrow> Inl e
              | Inr patch \<Rightarrow>
             (case parse_prerelease (case prerelease of None \<Rightarrow> [] | Some t \<Rightarrow> Split t CHR ''.'') of
                Inl e \<Rightarrow> Inl e
              | Inr pre \<Rightarrow>
             (case parse_build (case build of None \<Rightarrow> [] | Some t \<Rightarrow> Split t CHR ''.'') of
                Inl e \<Rightarrow> Inl e
              | Inr bm \<Rightarrow>
                  Inr \<lparr>Major = major, Minor = minor, Patch = patch, Pre = pre, BuildMeta = bm\<rparr>)))))
         | _ \<Rightarrow> Inl ErrNoMajorMinorPatch))"

definition ParseTolerant :: "string \<Rightarrow> semver_error + Version" where
  "ParseTolerant s0 =
     (let s = TrimPrefix (TrimSpace s0) ''v'';
          parts = SplitN s CHR ''.'' 3
      in if length parts < 3 then
           (if ContainsAny (last parts) ''+-'' then Inl ErrShortVersionMeta
            else Parse (Join (parts @ replicate (3 - length parts) ''0'') ''.''))
         else Parse s)"

text \<open>Go compares strings byte by byte.\<close>

fun str_less :: "string \<Rightarrow> string \<Rightarrow> bool" where
  "str_less [] [] = False"
| "str_less [] (y # ys) = True"
| "str_less (x # xs) [] = False"
| "str_less (x # xs) (y # ys) =
     ((of_char x :: nat) < of_char y \<or> (x = y \<and> str_less xs ys))"

definition cmp_nat :: "nat \<Rightarrow> nat \<Rightarrow> int" where
  "cmp_nat a b = (if a = b then 0 else if a > b then 1 else -1)"

definition PRVersion_Compare :: "PRVersion \<Rightarrow> PRVersion \<Rightarrow> int" where
  "PRVersion_Compare v o' =
     (if IsNum v \<and> \<not> IsNum o' then -1
      else if \<not> IsNum v \<and> IsNum o' then 1
      else if IsNum v \<and> IsNum o' then cmp_nat (VersionNum v) (VersionNum o')
      else if VersionStr v = VersionStr o' then 0
      else if str_less (VersionStr o') (VersionStr v) then 1
      else -1)"

text \<open>
  The loop of \<^verbatim>\<open>Version.Compare\<close> over the two pre-release lists: the first differing pair
  decides; if one list is a proper prefix of the other, the longer one is greater.
\<close>

fun compare_pre :: "PRVersion list \<Rightarrow> PRVersion list \<Rightarrow> int" where
  "compare_pre [] [] = 0"
| "compare_pre [] (y # ys) = -1"
| "compare_pre (x # xs) [] = 1"
| "compare_pre (x # xs) (y # ys) =
     (let comp = PRVersion_Compare x y
      in if comp = 0 then compare_pre xs ys else if comp = 1 then 1 else -1)"

definition Compare :: "Version \<Rightarrow> Version \<Rightarrow> int" where
  "Compare v o' =
     (if Major v \<noteq> Major o' then (if Major v > Major o' then 1 else -1)
      else if Minor v \<noteq> Minor o' then (if Minor v > Minor o' then 1 else -1)
      else if Patch v \<noteq> Patch o' then (if Patch v > Patch o' then 1 else -1)
      else if Pre v = [] \<and> Pre o' = [] then 0
      else if Pre v = [] \<and> Pre o' \<noteq> [] then 1
      else if Pre v \<noteq> [] \<and> Pre o' = [] then -1
      else compare_pre (Pre v) (Pre o'))"

definition GE :: "Version \<Rightarrow> Version \<Rightarrow> bool" where
  "GE v o' = (Compare v o' \<ge> 0)"

section \<open>The build context\<close>

text \<open>
  The buildpack works through a context object (\<^verbatim>\<open>*gcp.Context\<close>) that runs commands and
  touches the file system. Its implementation is not part of the file verified here, so the
  outside world is a parameter: a record of oracles that answer each request from the history
  of everything the build has done so far. The state of a build is that history, a list of
  events, and each function of the program maps the state to an outcome and the new state.
\<close>

datatype go_error =
    UserError string
  | ToolError string
  | SemverError semver_error
  | ErrorfW string go_error
  | ErrorfV string go_error

text \<open>
  \<open>UserError\<close> is what \<^verbatim>\<open>gcp.UserErrorf\<close> builds; \<open>ToolError\<close> is any error value handed
  in from outside (a failed command, a failed file operation); \<open>ErrorfW\<close> and \<open>ErrorfV\<close> are
  \<^verbatim>\<open>fmt.Errorf\<close> with the given text before the \<^verbatim>\<open>%w\<close> or \<^verbatim>\<open>%v\<close> of the inner error.
\<close>

datatype ExecOption =
    WithWorkDir string
  | WithEnv "string list"
  | WithUserAttribution
  | WithUserTimingAttribution

record ExecResult =
  Stdout :: string
  Stderr :: string

text \<open>
  What \<^verbatim>\<open>ctx.ExecWithErr\<close> returns: a result and no error, or an error together with a
  result pointer that may be nil.
\<close>

datatype exec_outcome =
    ExecOk ExecResult
  | ExecFailed "ExecResult option" go_error

record fnInfo =
  Source :: string
  Target :: string
  Package :: string

datatype template = tmplV0 | tmplV1_1

record Layer =
  Name :: string
  Path :: string

record FileInfo =
  Mode :: "32 word"

text \<open>\<^verbatim>\<open>FileMode.Perm\<close>: the permission bits, \<^verbatim>\<open>m & 0777\<close>.\<close>

definition Perm :: "32 word \<Rightarrow> 32 word" where
  "Perm m = m AND 0x1FF"

datatype event =
    EvLayer Layer
  | EvSetenv string string
  | EvSetFunctionsEnvVars Layer
  | EvRemoveAll string
  | EvMkdirAll string nat
  | EvRename string string
  | EvTempDir string
  | EvExec "string list" "ExecOption list"
  | EvLayerBuild Layer bool
  | EvLayerBuildEnvOverride Layer string string
  | EvCreateFile string
  | EvTemplateExecute template string fnInfo
  | EvClose string
  | EvLogf string
  | EvWarnf string
  | EvAddWebProcess "string list"

text \<open>
  The events are the calls the build makes that act on the world, in the order it makes them:
  \<open>EvExec\<close> is a command started (whether or not it then succeeds), \<open>EvTempDir\<close> a temporary
  directory created (the event carries its path), \<open>EvTemplateExecute\<close> a template rendered
  into an open file, \<open>EvLayerBuild\<close> and \<open>EvLayerBuildEnvOverride\<close> the assignments to the
  layer object the context handed out. The other events record a completed call of the
  context method of the same name.
\<close>

record Context =
  ApplicationRoot :: string
  BuildpackRoot :: string
  LayerPath :: "string \<Rightarrow> string"
  Getenv :: "string \<Rightarrow> string"
  FunctionTarget :: string
  Buildable :: string
  OutBin :: string
  SupportsNoGoMod :: "event list \<Rightarrow> bool"
  FileExists :: "event list \<Rightarrow> string list \<Rightarrow> bool"
  Stat :: "event list \<Rightarrow> string \<Rightarrow> go_error + FileInfo"
  ExecWithErr :: "event list \<Rightarrow> string list \<Rightarrow> ExecOption list \<Rightarrow> exec_outcome"
  TempDir :: "event list \<Rightarrow> string \<Rightarrow> string \<Rightarrow> go_error + string"
  Execute :: "event list \<Rightarrow> template \<Rightarrow> string \<Rightarrow> fnInfo \<Rightarrow> go_error option"
  fails :: "event list \<Rightarrow> event \<Rightarrow> go_error option"

text \<open>
  \<open>FunctionTarget\<close>, \<open>Buildable\<close> and \<open>OutBin\<close> stand for the constants \<^verbatim>\<open>env.FunctionTarget\<close>,
  \<^verbatim>\<open>env.Buildable\<close> and \<^verbatim>\<open>golang.OutBin\<close>, and \<open>SupportsNoGoMod\<close> for the function
  \<^verbatim>\<open>golang.SupportsNoGoMod\<close>, all declared in other packages. \<open>Stat\<close> is \<^verbatim>\<open>os.Stat\<close>, \<open>Execute\<close>
  the outcome of writing a rendered template to a file, and \<open>fails\<close> tells whether a call of
  a context method fails at a given point of the history.
\<close>

type_synonym state = "event list"

datatype 'a outcome = Ret 'a | Exit go_error

text \<open>
  \<open>Ret\<close> is a normal return of the Go function. \<open>Exit\<close> is the build being aborted from
  within a context method that cannot complete (\<^verbatim>\<open>ctx.Exec\<close> on a failing command, for
  example, returns no error to its caller).
\<close>

type_synonym 'a comp = "state \<Rightarrow> 'a outcome \<times> state"

definition ret :: "'a \<Rightarrow> 'a comp" where
  "ret x s = (Ret x, s)"

definition andThen :: "'a comp \<Rightarrow> ('a \<Rightarrow> 'b comp) \<Rightarrow> 'b comp" where
  "andThen m f s =
     (case m s of
        (Ret a, s') \<Rightarrow> f a s'
      | (Exit e, s') \<Rightarrow> (Exit e, s'))"

text \<open>
  Modelled from the spec: the way an aborted build leaves a function that has registered a
  deferred call; the context method that aborts (\<^verbatim>\<open>ctx.Exit\<close>) is defined in another package
  of the repository. The specification says that a failing invocation aborts the pipeline
  immediately and that scoped temporary directories are cleaned up on every exit path, success
  or failure. So \<open>deferred d body\<close> runs \<open>body\<close> and then, however \<open>body\<close> ended (a return or
  an abort), the deferred call \<open>d\<close>, as Go does when a function returns or unwinds; if the
  deferred call itself aborts, that is the outcome.
\<close>

definition deferred :: "unit comp \<Rightarrow> 'a comp \<Rightarrow> 'a comp" where
  "deferred d body s =
     (case body s of
        (r, s') \<Rightarrow>
          (case d s' of
             (Ret u, s'') \<Rightarrow> (r, s'')
           | (Exit e, s'') \<Rightarrow> (Exit e, s'')))"

definition emit :: "event \<Rightarrow> unit comp" where
  "emit ev s = (Ret (), s @ [ev])"

text \<open>A context method that either completes, which is recorded, or aborts the build.\<close>

definition ctx_call :: "Context \<Rightarrow> event \<Rightarrow> unit comp" where
  "ctx_call ctx ev s =
     (case fails ctx s ev of
        None \<Rightarrow> (Ret (), s @ [ev])
      | Some e \<Rightarrow> (Exit e, s))"

definition ctx_Layer :: "Context \<Rightarrow> string \<Rightarrow> Layer comp" where
  "ctx_Layer ctx name =
     (let l = \<lparr>Name = name, Path = LayerPath ctx name\<rparr>
      in andThen (ctx_call ctx (EvLayer l)) (\<lambda>u. ret l))"

definition ctx_Logf :: "string \<Rightarrow> unit comp" where
  "ctx_Logf msg = emit (EvLogf msg)"

definition ctx_Warnf :: "string \<Rightarrow> unit comp" where
  "ctx_Warnf msg = emit (EvWarnf msg)"

definition ctx_FileExists :: "Context \<Rightarrow> string list \<Rightarrow> bool comp" where
  "ctx_FileExists ctx elem s = (Ret (FileExists ctx s elem), s)"

definition os_Stat :: "Context \<Rightarrow> string \<Rightarrow> (go_error + FileInfo) comp" where
  "os_Stat ctx name s = (Ret (Stat ctx s name), s)"

definition golang_SupportsNoGoMod :: "Context \<Rightarrow> bool comp" where
  "golang_SupportsNoGoMod ctx s = (Ret (SupportsNoGoMod ctx s), s)"

definition ctx_TempDir :: "Context \<Rightarrow> string \<Rightarrow> string \<Rightarrow> string comp" where
  "ctx_TempDir ctx dir pattern s =
     (case TempDir ctx s dir pattern of
        Inr p \<Rightarrow> (Ret p, s @ [EvTempDir p])
      | Inl e \<Rightarrow> (Exit e, s))"

text \<open>
  \<^verbatim>\<open>ctx.ExecWithErr\<close> runs the command and hands the outcome to the caller; \<^verbatim>\<open>ctx.Exec\<close>
  hands back the result of a successful command only, and aborts the build otherwise.
\<close>

definition ctx_ExecWithErr :: "Context \<Rightarrow> string list \<Rightarrow> ExecOption list \<Rightarrow> exec_outcome comp" where
  "ctx_ExecWithErr ctx cmd opts s =
     (Ret (ExecWithErr ctx s cmd opts), s @ [EvExec cmd opts])"

definition ctx_Exec :: "Context \<Rightarrow> string list \<Rightarrow> ExecOption list \<Rightarrow> ExecResult comp" where
  "ctx_Exec ctx cmd opts =
     andThen (ctx_ExecWithErr ctx cmd opts) (\<lambda>r.
       case r of
         ExecOk res \<Rightarrow> ret res
       | ExecFailed res err \<Rightarrow> (\<lambda>s. (Exit err, s)))"

text \<open>\<^verbatim>\<open>tmpl.Execute(f, fn)\<close>: the rendering is attempted, and its error, if any, returned.\<close>

definition tmpl_Execute :: "Context \<Rightarrow> template \<Rightarrow> string \<Rightarrow> fnInfo \<Rightarrow> go_error option comp" where
  "tmpl_Execute ctx tmpl f fn s =
     (Ret (Execute ctx s tmpl f fn), s @ [EvTemplateExecute tmpl f fn])"

section \<open>The functions-framework buildpack\<close>

definition layerName :: string where
  "layerName = ''functions-framework''"

definition functionsFrameworkModule :: string where
  "functionsFrameworkModule = ''github.com/GoogleCloudPlatform/functions-framework-go''"

definition functionsFrameworkPackage :: string where
  "functionsFrameworkPackage = functionsFrameworkModule @ ''/funcframework''"

definition functionsFrameworkVersion :: string where
  "functionsFrameworkVersion = ''v1.1.0''"

definition appName :: string where
  "appName = ''serverless_function_app''"

definition fnSourceDir :: string where
  "fnSourceDir = ''serverless_function_source_code''"

text \<open>The \<^verbatim>\<open>%q\<close> verb on a string of plain characters puts it between double quotes.\<close>

definition quoted :: "string \<Rightarrow> string" where
  "quoted s = [CHR 0x22] @ s @ [CHR 0x22]"

text \<open>The mode \<^verbatim>\<open>0755\<close> of the directories the build creates.\<close>

definition mode_0755 :: nat where
  "mode_0755 = 7 * 64 + 5 * 8 + 5"

subsection \<open>Package name extraction\<close>

definition extractPackageNameInDir :: "Context \<Rightarrow> string \<Rightarrow> string comp" where
  "extractPackageNameInDir ctx source =
     (let scriptDir = filepath_Join [BuildpackRoot ctx, ''converter'', ''get_package'']
      in andThen (ctx_TempDir ctx [] appName) (\<lambda>cacheDir.
         deferred (ctx_call ctx (EvRemoveAll cacheDir))
           (andThen (ctx_Exec ctx [''go'', ''run'', ''main'', ''-dir'', source]
                       [WithEnv [''GOPATH='' @ scriptDir, ''GOCACHE='' @ cacheDir],
                        WithWorkDir scriptDir, WithUserAttribution])
              (\<lambda>res. ret (Stdout res)))))"

subsection \<open>Rendering the entry point\<close>

definition createMainGoFile :: "Context \<Rightarrow> fnInfo \<Rightarrow> string \<Rightarrow> string \<Rightarrow> go_error option comp" where
  "createMainGoFile ctx fn main version =
     andThen (ctx_call ctx (EvCreateFile main)) (\<lambda>u.
     deferred (emit (EvClose main))
       (case ParseTolerant version of
          Inl err \<Rightarrow>
            ret (Some (ErrorfW (''unable to parse framework version string '' @ version @ '': '')
                         (SemverError err)))
        | Inr requestedVersion \<Rightarrow>
            (case ParseTolerant ''v1.1.0'' of
               Inl err \<Rightarrow>
                 ret (Some (ErrorfV ''unable to parse framework version string v1.1.0: ''
                              (SemverError err)))
             | Inr v1_1 \<Rightarrow>
                 (let tmpl = (if GE requestedVersion v1_1 then tmplV1_1 else tmplV0)
                  in andThen (tmpl_Execute ctx tmpl main fn) (\<lambda>err.
                       case err of
                         Some e \<Rightarrow> ret (Some (ErrorfV ''executing template: '' e))
                       | None \<Rightarrow> ret None)))))"

subsection \<open>The framework version a function declares\<close>

definition frameworkSpecifiedVersion :: "Context \<Rightarrow> string \<Rightarrow> (string \<times> go_error option) comp" where
  "frameworkSpecifiedVersion ctx fnSource =
     andThen (ctx_ExecWithErr ctx
                [''go'', ''list'', ''-m'', ''-f'', ''{{.Version}}'', functionsFrameworkModule]
                [WithWorkDir fnSource]) (\<lambda>r.
       case r of
         ExecOk res \<Rightarrow>
           (let v = TrimSpace (Stdout res)
            in andThen (ctx_Logf (''Found framework version '' @ v)) (\<lambda>u. ret (v, None)))
       | ExecFailed res err \<Rightarrow>
           (if (case res of None \<Rightarrow> False
                | Some res' \<Rightarrow> Contains (Stderr res') ''not a known dependency'')
            then andThen (ctx_Logf ''No framework version specified, using default'')
                   (\<lambda>u. ret ([], None))
            else ret ([], Some err)))"

subsection \<open>Builds with a go.mod file\<close>

definition module_path_message :: string where
  "module_path_message =
     ''the module path in the function's go.mod must contain a dot in the first path element before a slash, e.g. example.com/module, found: ''"

text \<open>
  \<^verbatim>\<open>createMainGoMod\<close> in two parts. The second part, given first, is what the function does
  once the import path of the package is fixed: \<open>fn\<close> is the function information with that
  import path and \<open>fnMod\<close> the module path of the function.
\<close>

definition createMainGoMod_rest :: "Context \<Rightarrow> fnInfo \<Rightarrow> string \<Rightarrow> go_error option comp" where
  "createMainGoMod_rest ctx fn fnMod =
     andThen (ctx_Exec ctx [''go'', ''mod'', ''edit'', ''-require'', fnMod @ ''@v0.0.0''] [])
       (\<lambda>r2.
     andThen (ctx_Exec ctx [''go'', ''mod'', ''edit'', ''-replace'',
                            fnMod @ ''@v0.0.0='' @ Source fn] []) (\<lambda>r3.
     andThen (frameworkSpecifiedVersion ctx (Source fn)) (\<lambda>(version, err).
       case err of
         Some e \<Rightarrow>
           ret (Some (ErrorfW ''checking for functions framework dependency in go.mod: '' e))
       | None \<Rightarrow>
           (if version = [] then
              andThen (ctx_Exec ctx
                         [''go'', ''get'',
                          functionsFrameworkModule @ ''@'' @ functionsFrameworkVersion]
                         [WithUserAttribution]) (\<lambda>r4.
                createMainGoFile ctx fn (filepath_Join [ApplicationRoot ctx, ''main.go''])
                  functionsFrameworkVersion)
            else
              createMainGoFile ctx fn (filepath_Join [ApplicationRoot ctx, ''main.go''])
                version))))"

text \<open>
  The first part initialises the module of the application, asks for the module path of the
  function, checks it and sets the import path.
\<close>

definition createMainGoMod :: "Context \<Rightarrow> fnInfo \<Rightarrow> go_error option comp" where
  "createMainGoMod ctx fn =
     andThen (ctx_Exec ctx [''go'', ''mod'', ''init'', appName] []) (\<lambda>r0.
     andThen (ctx_Exec ctx [''go'', ''list'', ''-m''] [WithWorkDir (Source fn)]) (\<lambda>r1.
       let fnMod = Stdout r1
       in if (case Split fnMod CHR ''/'' of
                [] \<Rightarrow> False
              | p # ps \<Rightarrow> \<not> Contains p ''.'')
          then ret (Some (UserError (module_path_message @ fnMod)))
          else
            andThen (ctx_FileExists ctx [ApplicationRoot ctx, Package fn]) (\<lambda>found.
              createMainGoMod_rest ctx
                (if found then fn\<lparr>Package := fnMod @ ''/'' @ Package fn\<rparr>
                 else fn\<lparr>Package := fnMod\<rparr>)
                fnMod)))"

subsection \<open>Builds with vendored dependencies and no go.mod file\<close>

definition vendored_warning :: string where
  "vendored_warning =
     ''Your vendored dependencies do not contain the functions framework ('' @
     functionsFrameworkPackage @
     ''). If there are conflicts between the vendored packages and the dependencies of the framework, you may see encounter unexpected issues.''"

definition createMainVendored :: "Context \<Rightarrow> Layer \<Rightarrow> fnInfo \<Rightarrow> go_error option comp" where
  "createMainVendored ctx l fn =
     andThen (emit (EvLayerBuild l True)) (\<lambda>u0.
     andThen (emit (EvLayerBuildEnvOverride l ''GOPATH'' (ApplicationRoot ctx))) (\<lambda>u1.
       let gopath = ApplicationRoot ctx;
           gopathSrc = filepath_Join [gopath, ''src'']
       in
     andThen (ctx_call ctx (EvMkdirAll gopathSrc mode_0755)) (\<lambda>u2.
     andThen (emit (EvLayerBuildEnvOverride l (Buildable ctx) (appName @ ''/main''))) (\<lambda>u3.
       let appPath = filepath_Join [gopathSrc, appName, ''main'']
       in
     andThen (ctx_call ctx (EvMkdirAll appPath mode_0755)) (\<lambda>u4.
     andThen (ctx_call ctx (EvRename (Source fn) (filepath_Join [gopathSrc, Package fn])))
       (\<lambda>u5.
       let fnVendoredPath = filepath_Join [gopathSrc, Package fn, ''vendor''];
           fnFrameworkVendoredPath = filepath_Join [fnVendoredPath, functionsFrameworkPackage]
       in
     andThen (ctx_FileExists ctx [fnFrameworkVendoredPath]) (\<lambda>found.
       if found then
         andThen (ctx_Logf
                    ''Found function with vendored dependencies including functions-framework'')
           (\<lambda>u6.
         andThen (ctx_Exec ctx [''cp'', ''-r'', fnVendoredPath, appPath]
                    [WithUserTimingAttribution]) (\<lambda>r0.
           createMainGoFile ctx fn (filepath_Join [appPath, ''main.go'']) ''v0.0.0''))
       else
         andThen (ctx_Logf
                    ''Found function with vendored dependencies excluding functions-framework'')
           (\<lambda>u6.
         andThen (ctx_Warnf vendored_warning) (\<lambda>u7.
         andThen (ctx_TempDir ctx [] appName) (\<lambda>cache.
         deferred (ctx_call ctx (EvRemoveAll cache))
           (andThen (ctx_Exec ctx [''go'', ''get'', functionsFrameworkPackage]
                       [WithEnv [''GOPATH='' @ gopath, ''GOCACHE='' @ cache],
                        WithUserAttribution]) (\<lambda>r0.
            andThen (ctx_Exec ctx [''git'', ''checkout'', functionsFrameworkVersion]
                       [WithWorkDir (filepath_Join [gopathSrc, functionsFrameworkModule]),
                        WithUserAttribution]) (\<lambda>r1.
              createMainGoFile ctx fn (filepath_Join [appPath, ''main.go''])
                functionsFrameworkVersion)))))))))))))"

subsection \<open>The build function\<close>

text \<open>
  \<^verbatim>\<open>buildFn\<close> in two parts. The first, up to the construction of the \<^verbatim>\<open>fnInfo\<close> value, sets
  up the layer and moves the function source into its own directory.
\<close>

definition find_command :: string where
  "find_command =
     ''find . -mindepth 1 -not -name '' @ fnSourceDir @ '' -prune -not -name '' @
     quoted ''.google*'' @ '' -prune -exec mv -t '' @ fnSourceDir @ '' {} +''"

definition buildFn_relocate :: "Context \<Rightarrow> (Layer \<times> fnInfo) comp" where
  "buildFn_relocate ctx =
     andThen (ctx_Layer ctx layerName) (\<lambda>l.
     andThen (ctx_call ctx (EvSetenv ''GOPATH'' (Path l))) (\<lambda>u0.
     andThen (ctx_call ctx (EvSetFunctionsEnvVars l)) (\<lambda>u1.
       let fnTarget = Getenv ctx (FunctionTarget ctx)
       in
     andThen (ctx_call ctx (EvRemoveAll fnSourceDir)) (\<lambda>u2.
     andThen (ctx_call ctx (EvMkdirAll fnSourceDir mode_0755)) (\<lambda>u3.
     andThen (ctx_Exec ctx [''bash'', ''-c'', find_command] [WithUserTimingAttribution]) (\<lambda>r0.
       let fnSource = filepath_Join [ApplicationRoot ctx, fnSourceDir]
       in
     andThen (extractPackageNameInDir ctx fnSource) (\<lambda>pkg.
       ret (l, \<lparr>Source = fnSource, Target = fnTarget, Package = pkg\<rparr>))))))))"

text \<open>
  The second part is the choice between the two ways of building. Either way, an error
  returned by the chosen function is returned at once, and otherwise the web process is
  registered and the build returns no error.
\<close>

definition register_web_process :: "Context \<Rightarrow> go_error option \<Rightarrow> go_error option comp" where
  "register_web_process ctx err =
     (case err of
        Some e \<Rightarrow> ret (Some e)
      | None \<Rightarrow> andThen (ctx_call ctx (EvAddWebProcess [OutBin ctx])) (\<lambda>u. ret None))"

definition buildFn_strategy :: "Context \<Rightarrow> Layer \<Rightarrow> fnInfo \<Rightarrow> go_error option comp" where
  "buildFn_strategy ctx l fn =
     (let goMod = filepath_Join [Source fn, ''go.mod'']
      in andThen (ctx_FileExists ctx [goMod]) (\<lambda>exists.
           if \<not> exists then
             andThen (golang_SupportsNoGoMod ctx) (\<lambda>supported.
               if \<not> supported then ret (Some (UserError ''function build requires go.mod file''))
               else andThen (createMainVendored ctx l fn) (register_web_process ctx))
           else
             andThen (os_Stat ctx goMod) (\<lambda>st.
               if (case st of Inl err \<Rightarrow> False | Inr info \<Rightarrow> Perm (Mode info) AND 0x80 = 0)
               then ret (Some (UserError ''go.mod exists but is not writable''))
               else andThen (createMainGoMod ctx fn) (register_web_process ctx))))"

definition buildFn :: "Context \<Rightarrow> go_error option comp" where
  "buildFn ctx = andThen (buildFn_relocate ctx) (\<lambda>(l, fn). buildFn_strategy ctx l fn)"

section \<open>Reading a history\<close>

text \<open>The commands started, in order.\<close>

fun execs :: "event list \<Rightarrow> string list list" where
  "execs [] = []"
| "execs (EvExec cmd opts # evs) = cmd # execs evs"
| "execs (ev # evs) = execs evs"

text \<open>The templates rendered, in order, each with the file and the data it was rendered with.\<close>

fun rendered :: "event list \<Rightarrow> (template \<times> string \<times> fnInfo) list" where
  "rendered [] = []"
| "rendered (EvTemplateExecute t f fn # evs) = (t, f, fn) # rendered evs"
| "rendered (ev # evs) = rendered evs"

text \<open>
  The temporary directories that exist after a history: those created and not removed since.
\<close>

fun temp_dirs_after :: "string list \<Rightarrow> event list \<Rightarrow> string list" where
  "temp_dirs_after ds [] = ds"
| "temp_dirs_after ds (EvTempDir d # evs) = temp_dirs_after (ds @ [d]) evs"
| "temp_dirs_after ds (EvRemoveAll p # evs) = temp_dirs_after (filter (\<lambda>d. d \<noteq> p) ds) evs"
| "temp_dirs_after ds (ev # evs) = temp_dirs_after ds evs"

definition live_temp_dirs :: "event list \<Rightarrow> string list" where
  "live_temp_dirs evs = temp_dirs_after [] evs"

text \<open>
  The events that change files. Of the commands the program runs, only the \<^verbatim>\<open>go list\<close>
  queries are asked for information; the others create or rewrite files (\<^verbatim>\<open>go mod init\<close>
  creates the go.mod file of the directory it runs in, \<^verbatim>\<open>go mod edit\<close> and \<^verbatim>\<open>go get\<close>
  rewrite it).
\<close>

fun changes_files :: "event \<Rightarrow> bool" where
  "changes_files (EvExec cmd opts) = (take 2 cmd \<noteq> [''go'', ''list''])"
| "changes_files (EvRemoveAll p) = True"
| "changes_files (EvMkdirAll p m) = True"
| "changes_files (EvRename p q) = True"
| "changes_files (EvTempDir p) = True"
| "changes_files (EvCreateFile p) = True"
| "changes_files (EvTemplateExecute t f fn) = True"
| "changes_files ev = False"

text \<open>The events a computation adds to the history it starts from.\<close>

definition new_events :: "state \<Rightarrow> 'a outcome \<times> state \<Rightarrow> event list" where
  "new_events s r = drop (length s) (snd r)"

section \<open>A sample world\<close>

text \<open>
  A world in which no context method fails, commands answer by the given function of the
  command line, and files exist as the given predicate says. It serves to run the program on
  concrete inputs.
\<close>

definition sample_ctx ::
  "(string list \<Rightarrow> exec_outcome) \<Rightarrow> (string list \<Rightarrow> bool) \<Rightarrow> bool \<Rightarrow> (go_error + FileInfo)
    \<Rightarrow> Context" where
  "sample_ctx run exists supported st =
     \<lparr>ApplicationRoot = ''/workspace'',
      BuildpackRoot = ''/cnb/buildpack'',
      LayerPath = (\<lambda>name. ''/layers/'' @ name),
      Getenv = (\<lambda>name. ''Hello''),
      FunctionTarget = ''FUNCTION_TARGET'',
      Buildable = ''GOOGLE_BUILDABLE'',
      OutBin = ''main'',
      SupportsNoGoMod = (\<lambda>h. supported),
      FileExists = (\<lambda>h elem. exists elem),
      Stat = (\<lambda>h name. st),
      ExecWithErr = (\<lambda>h cmd opts. run cmd),
      TempDir = (\<lambda>h dir pattern. Inr (''/tmp/'' @ pattern @ ''1'')),
      Execute = (\<lambda>h tmpl f fn. None),
      fails = (\<lambda>h ev. None)\<rparr>"

definition sample_fn :: fnInfo where
  "sample_fn = \<lparr>Source = ''/workspace/serverless_function_source_code'', Target = ''Hello'',
                Package = ''hello''\<rparr>"

definition sample_layer :: Layer where
  "sample_layer = \<lparr>Name = ''functions-framework'', Path = ''/layers/functions-framework''\<rparr>"

text \<open>
  Commands that succeed: the package name helper prints \<open>hello\<close>, the module query prints the
  given module path, the query for the framework version fails because the framework is not a
  dependency of the function, and every other command prints nothing.
\<close>

definition sample_run :: "string \<Rightarrow> string list \<Rightarrow> exec_outcome" where
  "sample_run fnMod cmd =
     (if take 2 cmd = [''go'', ''run''] then ExecOk \<lparr>Stdout = ''hello'', Stderr = []\<rparr>
      else if cmd = [''go'', ''list'', ''-m''] then ExecOk \<lparr>Stdout = fnMod, Stderr = []\<rparr>
      else if take 3 cmd = [''go'', ''list'', ''-m''] then
        ExecFailed (Some \<lparr>Stdout = [], Stderr = ''go: module x: not a known dependency''\<rparr>)
          (ToolError ''exit status 1'')
      else ExecOk \<lparr>Stdout = [], Stderr = []\<rparr>)"

text \<open>The same, for a function whose go.mod requires version 1.0.9 of the framework.\<close>

definition pinned_run :: "string list \<Rightarrow> exec_outcome" where
  "pinned_run cmd =
     (if take 2 cmd = [''go'', ''run''] then ExecOk \<lparr>Stdout = ''hello'', Stderr = []\<rparr>
      else if cmd = [''go'', ''list'', ''-m''] then
        ExecOk \<lparr>Stdout = ''example.com/fn'', Stderr = []\<rparr>
      else if take 3 cmd = [''go'', ''list'', ''-m''] then
        ExecOk \<lparr>Stdout = ''v1.0.9'' @ [CHR 0x0A], Stderr = []\<rparr>
      else ExecOk \<lparr>Stdout = [], Stderr = []\<rparr>)"

text \<open>A world in which every command fails.\<close>

definition failing_run :: "string list \<Rightarrow> exec_outcome" where
  "failing_run cmd = ExecFailed None (ToolError ''exit status 1'')"

definition no_files :: "string list \<Rightarrow> bool" where
  "no_files elem = False"

definition all_files :: "string list \<Rightarrow> bool" where
  "all_files elem = True"

definition only_go_mod :: "string list \<Rightarrow> bool" where
  "only_go_mod elem = (elem = [''/workspace/serverless_function_source_code/go.mod''])"

definition go_mod_and_package :: "string list \<Rightarrow> bool" where
  "go_mod_and_package elem =
     (elem = [''/workspace/serverless_function_source_code/go.mod'']
      \<or> elem = [''/workspace'', ''hello''])"

definition stat_failure :: "go_error + FileInfo" where
  "stat_failure = Inl (ToolError ''stat: permission denied'')"

text \<open>The modes \<^verbatim>\<open>0644\<close> and \<^verbatim>\<open>0444\<close>.\<close>

definition stat_writable :: "go_error + FileInfo" where
  "stat_writable = Inr \<lparr>Mode = 0x1A4\<rparr>"

definition stat_read_only :: "go_error + FileInfo" where
  "stat_read_only = Inr \<lparr>Mode = 0x124\<rparr>"

text \<open>No go.mod, and a toolchain that requires one.\<close>

definition quiet_ctx :: Context where
  "quiet_ctx = sample_ctx (sample_run ''example.com/fn'') no_files False stat_failure"

text \<open>No go.mod on a toolchain that allows it, with and without a vendored framework.\<close>

definition vendored_ctx :: Context where
  "vendored_ctx = sample_ctx (sample_run ''example.com/fn'') all_files True stat_failure"

definition unvendored_ctx :: Context where
  "unvendored_ctx = sample_ctx (sample_run ''example.com/fn'') no_files True stat_failure"

definition failing_ctx :: Context where
  "failing_ctx = sample_ctx failing_run no_files True stat_failure"

text \<open>A go.mod that is writable, read-only, or cannot be examined.\<close>

definition module_ctx :: Context where
  "module_ctx = sample_ctx (sample_run ''example.com/fn'') only_go_mod False stat_writable"

definition read_only_ctx :: Context where
  "read_only_ctx = sample_ctx (sample_run ''example.com/fn'') only_go_mod False stat_read_only"

definition stat_failure_ctx :: Context where
  "stat_failure_ctx = sample_ctx (sample_run ''example.com/fn'') only_go_mod False stat_failure"

text \<open>A module path without a dot in its first element; a package directory at the root; a
  function that pins the framework.\<close>

definition undotted_ctx :: Context where
  "undotted_ctx = sample_ctx (sample_run ''foo/bar'') only_go_mod False stat_writable"

definition package_dir_ctx :: Context where
  "package_dir_ctx =
     sample_ctx (sample_run ''example.com/fn'') go_mod_and_package False stat_writable"

definition pinned_ctx :: Context where
  "pinned_ctx = sample_ctx pinned_run only_go_mod False stat_writable"

text \<open>The history of the sample worlds once the function source has been moved.\<close>

definition relocated :: "event list" where
  "relocated =
     [EvLayer sample_layer,
      EvSetenv ''GOPATH'' ''/layers/functions-framework'',
      EvSetFunctionsEnvVars sample_layer,
      EvRemoveAll ''serverless_function_source_code'',
      EvMkdirAll ''serverless_function_source_code'' 493,
      EvExec [''bash'', ''-c'', find_command] [WithUserTimingAttribution],
      EvTempDir ''/tmp/serverless_function_app1'',
      EvExec [''go'', ''run'', ''main'', ''-dir'', ''/workspace/serverless_function_source_code'']
        [WithEnv [''GOPATH=/cnb/buildpack/converter/get_package'',
                  ''GOCACHE=/tmp/serverless_function_app1''],
         WithWorkDir ''/cnb/buildpack/converter/get_package'', WithUserAttribution],
      EvRemoveAll ''/tmp/serverless_function_app1'']"

section \<open>Names for the paths and histories of the program\<close>

text \<open>The threshold version of \<^const>\<open>createMainGoFile\<close>, parsed.\<close>

definition v1_1_0 :: Version where
  "v1_1_0 = \<lparr>Major = 1, Minor = 1, Patch = 0, Pre = [], BuildMeta = []\<rparr>"

text \<open>The local variables of \<^const>\<open>createMainVendored\<close>.\<close>

definition gopathSrc_of :: "Context \<Rightarrow> string" where
  "gopathSrc_of ctx = filepath_Join [ApplicationRoot ctx, ''src'']"

definition appPath_of :: "Context \<Rightarrow> string" where
  "appPath_of ctx = filepath_Join [gopathSrc_of ctx, appName, ''main'']"

definition fnVendoredPath_of :: "Context \<Rightarrow> fnInfo \<Rightarrow> string" where
  "fnVendoredPath_of ctx fn = filepath_Join [gopathSrc_of ctx, Package fn, ''vendor'']"

definition fnFrameworkVendoredPath_of :: "Context \<Rightarrow> fnInfo \<Rightarrow> string" where
  "fnFrameworkVendoredPath_of ctx fn =
     filepath_Join [fnVendoredPath_of ctx fn, functionsFrameworkPackage]"

text \<open>
  What \<^const>\<open>createMainVendored\<close> does before it looks for a vendored framework: it marks the
  layer, creates the two directories and moves the function source.
\<close>

definition vendored_setup :: "Context \<Rightarrow> Layer \<Rightarrow> fnInfo \<Rightarrow> event list" where
  "vendored_setup ctx l fn =
     [EvLayerBuild l True,
      EvLayerBuildEnvOverride l ''GOPATH'' (ApplicationRoot ctx),
      EvMkdirAll (gopathSrc_of ctx) mode_0755,
      EvLayerBuildEnvOverride l (Buildable ctx) (appName @ ''/main''),
      EvMkdirAll (appPath_of ctx) mode_0755,
      EvRename (Source fn) (filepath_Join [gopathSrc_of ctx, Package fn])]"

text \<open>None of the three file operations of that setup fails.\<close>

definition vendored_setup_succeeds :: "Context \<Rightarrow> Layer \<Rightarrow> fnInfo \<Rightarrow> state \<Rightarrow> bool" where
  "vendored_setup_succeeds ctx l fn s =
     (fails ctx (s @ take 2 (vendored_setup ctx l fn)) (vendored_setup ctx l fn ! 2) = None \<and>
      fails ctx (s @ take 4 (vendored_setup ctx l fn)) (vendored_setup ctx l fn ! 4) = None \<and>
      fails ctx (s @ take 5 (vendored_setup ctx l fn)) (vendored_setup ctx l fn ! 5) = None)"

definition found_including :: string where
  "found_including = ''Found function with vendored dependencies including functions-framework''"

definition found_excluding :: string where
  "found_excluding = ''Found function with vendored dependencies excluding functions-framework''"

text \<open>The three commands of \<^const>\<open>createMainVendored\<close>: the copy, the fetch and the checkout.\<close>

definition copy_cmd :: "Context \<Rightarrow> fnInfo \<Rightarrow> string list" where
  "copy_cmd ctx fn = [''cp'', ''-r'', fnVendoredPath_of ctx fn, appPath_of ctx]"

definition fetch_cmd :: "string list" where
  "fetch_cmd = [''go'', ''get'', functionsFrameworkPackage]"

definition fetch_opts :: "Context \<Rightarrow> string \<Rightarrow> ExecOption list" where
  "fetch_opts ctx cache =
     [WithEnv [''GOPATH='' @ ApplicationRoot ctx, ''GOCACHE='' @ cache], WithUserAttribution]"

definition checkout_cmd :: "string list" where
  "checkout_cmd = [''git'', ''checkout'', functionsFrameworkVersion]"

definition checkout_opts :: "Context \<Rightarrow> ExecOption list" where
  "checkout_opts ctx =
     [WithWorkDir (filepath_Join [gopathSrc_of ctx, functionsFrameworkModule]),
      WithUserAttribution]"

text \<open>The commands of \<^const>\<open>createMainGoMod\<close>.\<close>

definition init_cmd :: "string list" where
  "init_cmd = [''go'', ''mod'', ''init'', appName]"

definition list_cmd :: "string list" where
  "list_cmd = [''go'', ''list'', ''-m'']"

definition require_cmd :: "string \<Rightarrow> string list" where
  "require_cmd fnMod = [''go'', ''mod'', ''edit'', ''-require'', fnMod @ ''@v0.0.0'']"

definition replace_cmd :: "string \<Rightarrow> fnInfo \<Rightarrow> string list" where
  "replace_cmd fnMod fn =
     [''go'', ''mod'', ''edit'', ''-replace'', fnMod @ ''@v0.0.0='' @ Source fn]"

definition version_cmd :: "string list" where
  "version_cmd = [''go'', ''list'', ''-m'', ''-f'', ''{{.Version}}'', functionsFrameworkModule]"

definition get_cmd :: "string list" where
  "get_cmd = [''go'', ''get'', functionsFrameworkModule @ ''@'' @ functionsFrameworkVersion]"

text \<open>The first element of a slash-separated path.\<close>

definition first_segment :: "string \<Rightarrow> string" where
  "first_segment s = (case Split s CHR ''/'' of [] \<Rightarrow> [] | p # ps \<Rightarrow> p)"

text \<open>The standard output of a command that succeeded.\<close>

fun output_of :: "exec_outcome \<Rightarrow> string option" where
  "output_of (ExecOk res) = Some (Stdout res)"
| "output_of (ExecFailed res err) = None"

text \<open>
  The first two commands of \<^const>\<open>createMainGoMod\<close> succeed, and the module path printed by
  the second is \<open>fnMod\<close>.
\<close>

definition module_queried :: "Context \<Rightarrow> fnInfo \<Rightarrow> string \<Rightarrow> state \<Rightarrow> bool" where
  "module_queried ctx fn fnMod s =
     (output_of (ExecWithErr ctx s init_cmd []) \<noteq> None \<and>
      output_of (ExecWithErr ctx (s @ [EvExec init_cmd []]) list_cmd [WithWorkDir (Source fn)])
        = Some fnMod)"

definition module_query_events :: "fnInfo \<Rightarrow> event list" where
  "module_query_events fn = [EvExec init_cmd [], EvExec list_cmd [WithWorkDir (Source fn)]]"

text \<open>The package import path that \<^const>\<open>createMainGoMod\<close> computes.\<close>

definition import_path :: "Context \<Rightarrow> fnInfo \<Rightarrow> string \<Rightarrow> state \<Rightarrow> string" where
  "import_path ctx fn fnMod s =
     (if FileExists ctx (s @ module_query_events fn) [ApplicationRoot ctx, Package fn]
      then fnMod @ ''/'' @ Package fn else fnMod)"

text \<open>The two edits of the go.mod file of the application succeed.\<close>

definition edits_succeed :: "Context \<Rightarrow> fnInfo \<Rightarrow> string \<Rightarrow> state \<Rightarrow> bool" where
  "edits_succeed ctx fn fnMod s =
     (output_of (ExecWithErr ctx s (require_cmd fnMod) []) \<noteq> None \<and>
      output_of (ExecWithErr ctx (s @ [EvExec (require_cmd fnMod) []]) (replace_cmd fnMod fn) [])
        \<noteq> None)"

definition edit_events :: "fnInfo \<Rightarrow> string \<Rightarrow> event list" where
  "edit_events fn fnMod = [EvExec (require_cmd fnMod) [], EvExec (replace_cmd fnMod fn) []]"

text \<open>
  A computation never returns the error \<open>e\<close>: from any state it ends in another return value
  or in an abort.
\<close>

definition never_returns :: "go_error \<Rightarrow> go_error option comp \<Rightarrow> bool" where
  "never_returns e m = (\<forall>s. fst (m s) \<noteq> Ret (Some e))"

text \<open>
  A computation is tidy when, from any state, the events it adds leave no temporary directory
  behind, however it ends.
\<close>

definition tidy :: "'a comp \<Rightarrow> bool" where
  "tidy m = (\<forall>s. \<exists>new. snd (m s) = s @ new \<and> live_temp_dirs new = [])"

section \<open>Running the program symbolically\<close>

lemmas run_defs = andThen_def ret_def deferred_def emit_def ctx_call_def ctx_Layer_def ctx_Logf_def
  ctx_Warnf_def ctx_FileExists_def os_Stat_def golang_SupportsNoGoMod_def ctx_TempDir_def
  ctx_ExecWithErr_def ctx_Exec_def tmpl_Execute_def

lemmas semver_defs = ParseTolerant_def Parse_def TrimSpace_def trim_right_runes_def
  trim_left_runes.simps space_encodings_def TrimPrefix_def ContainsAny_def parse_number_def
  ParseUint_def NewPRVersion_def containsOnly_def numbers_def alphanum_def digit_val_def
  hasLeadingZeroes_def cut_at_def numeral_3_eq_3

lemmas vendored_defs = vendored_setup_def vendored_setup_succeeds_def gopathSrc_of_def
  appPath_of_def fnVendoredPath_of_def fnFrameworkVendoredPath_of_def found_including_def
  found_excluding_def copy_cmd_def fetch_cmd_def fetch_opts_def checkout_cmd_def checkout_opts_def

lemmas sample_defs = sample_ctx_def sample_fn_def sample_layer_def sample_run_def pinned_run_def
  failing_run_def no_files_def all_files_def only_go_mod_def go_mod_and_package_def
  stat_failure_def stat_writable_def stat_read_only_def quiet_ctx_def vendored_ctx_def
  unvendored_ctx_def failing_ctx_def module_ctx_def read_only_ctx_def stat_failure_ctx_def
  undotted_ctx_def package_dir_ctx_def pinned_ctx_def relocated_def

lemmas path_defs = filepath_Join_def Clean_def

lemmas const_defs = appName_def functionsFrameworkPackage_def functionsFrameworkModule_def
  functionsFrameworkVersion_def mode_0755_def vendored_warning_def fnSourceDir_def layerName_def
  find_command_def quoted_def module_path_message_def

lemmas module_defs = init_cmd_def list_cmd_def require_cmd_def replace_cmd_def version_cmd_def
  get_cmd_def first_segment_def module_queried_def module_query_events_def import_path_def
  edits_succeed_def edit_events_def

lemma execs_append: "execs (xs @ ys) = execs xs @ execs ys"
  by (induction xs rule: execs.induct) simp_all

lemma rendered_append: "rendered (xs @ ys) = rendered xs @ rendered ys"
  by (induction xs rule: rendered.induct) simp_all

subsection \<open>Versions against the threshold\<close>

lemma ParseTolerant_v110: "ParseTolerant ''v1.1.0'' = Inr v1_1_0"
  by (simp add: semver_defs v1_1_0_def)

lemma GE_1_0_9: "\<exists>v. ParseTolerant ''1.0.9'' = Inr v \<and> \<not> GE v v1_1_0"
  by (simp add: semver_defs v1_1_0_def GE_def Compare_def)

lemma GE_1_1_0: "\<exists>v. ParseTolerant ''1.1.0'' = Inr v \<and> GE v v1_1_0"
  by (simp add: semver_defs v1_1_0_def GE_def Compare_def)

lemma GE_1_1_0_rc1: "\<exists>v. ParseTolerant ''1.1.0-rc1'' = Inr v \<and> \<not> GE v v1_1_0"
  by (simp add: semver_defs v1_1_0_def GE_def Compare_def)

lemma GE_2_0_0: "\<exists>v. ParseTolerant ''2.0.0'' = Inr v \<and> GE v v1_1_0"
  by (simp add: semver_defs v1_1_0_def GE_def Compare_def)

lemma GE_1_0_10: "\<exists>v. ParseTolerant ''1.0.10'' = Inr v \<and> \<not> GE v v1_1_0"
  by (simp add: semver_defs v1_1_0_def GE_def Compare_def)

lemma GE_v0_0_0: "\<exists>v. ParseTolerant ''v0.0.0'' = Inr v \<and> \<not> GE v v1_1_0"
  by (simp add: semver_defs v1_1_0_def GE_def Compare_def)

lemma GE_v1_1_0: "\<exists>v. ParseTolerant ''v1.1.0'' = Inr v \<and> GE v v1_1_0"
  by (simp add: semver_defs v1_1_0_def GE_def Compare_def)

subsection \<open>The renderer\<close>

lemma createMainGoFile_render:
  assumes "fails ctx s (EvCreateFile main) = None" and "ParseTolerant version = Inr rv"
  shows "createMainGoFile ctx fn main version s =
    (Ret (map_option (ErrorfV ''executing template: '')
            (Execute ctx (s @ [EvCreateFile main])
               (if GE rv v1_1_0 then tmplV1_1 else tmplV0) main fn)),
      s @ [EvCreateFile main,
           EvTemplateExecute (if GE rv v1_1_0 then tmplV1_1 else tmplV0) main fn,
           EvClose main])"
  using assms
  by (simp add: createMainGoFile_def run_defs ParseTolerant_v110 Let_def split: option.splits)

lemma rendered_createMainGoFile:
  assumes "fails ctx s (EvCreateFile main) = None" and "ParseTolerant version = Inr rv"
  shows "rendered (new_events s (createMainGoFile ctx fn main version s)) =
           [(if GE rv v1_1_0 then tmplV1_1 else tmplV0, main, fn)]"
  by (simp add: createMainGoFile_render [OF assms] new_events_def)

lemma createMainGoFile_events:
  "snd (createMainGoFile ctx fn m v s) = s
   \<or> snd (createMainGoFile ctx fn m v s) = s @ [EvCreateFile m, EvClose m]
   \<or> (\<exists>rv. ParseTolerant v = Inr rv \<and>
        snd (createMainGoFile ctx fn m v s) =
          s @ [EvCreateFile m,
               EvTemplateExecute (if GE rv v1_1_0 then tmplV1_1 else tmplV0) m fn,
               EvClose m])"
proof (cases "fails ctx s (EvCreateFile m)")
  case (Some e)
  then show ?thesis by (simp add: createMainGoFile_def run_defs)
next
  case None
  show ?thesis
  proof (cases "ParseTolerant v")
    case (Inl err)
    with None show ?thesis by (simp add: createMainGoFile_def run_defs)
  next
    case (Inr rv)
    with None show ?thesis by (simp add: createMainGoFile_render)
  qed
qed

subsection \<open>The two branches of the vendored build\<close>

lemma createMainVendored_found:
  assumes "vendored_setup_succeeds ctx l fn s"
      and "FileExists ctx (s @ vendored_setup ctx l fn) [fnFrameworkVendoredPath_of ctx fn]"
      and "ExecWithErr ctx (s @ vendored_setup ctx l fn @ [EvLogf found_including])
             (copy_cmd ctx fn) [WithUserTimingAttribution] = ExecOk r"
  shows "createMainVendored ctx l fn s =
           createMainGoFile ctx fn (filepath_Join [appPath_of ctx, ''main.go'']) ''v0.0.0''
             (s @ vendored_setup ctx l fn @
               [EvLogf found_including, EvExec (copy_cmd ctx fn) [WithUserTimingAttribution]])"
  using assms
  by (simp add: createMainVendored_def run_defs vendored_defs Let_def)

lemma createMainVendored_fetch:
  assumes "vendored_setup_succeeds ctx l fn s"
      and "\<not> FileExists ctx (s @ vendored_setup ctx l fn) [fnFrameworkVendoredPath_of ctx fn]"
      and "TempDir ctx (s @ vendored_setup ctx l fn @
              [EvLogf found_excluding, EvWarnf vendored_warning]) [] appName = Inr cache"
      and "ExecWithErr ctx (s @ vendored_setup ctx l fn @
              [EvLogf found_excluding, EvWarnf vendored_warning, EvTempDir cache])
             fetch_cmd (fetch_opts ctx cache) = ExecOk r0"
      and "ExecWithErr ctx (s @ vendored_setup ctx l fn @
              [EvLogf found_excluding, EvWarnf vendored_warning, EvTempDir cache,
               EvExec fetch_cmd (fetch_opts ctx cache)])
             checkout_cmd (checkout_opts ctx) = ExecOk r1"
  shows "createMainVendored ctx l fn s =
           deferred (ctx_call ctx (EvRemoveAll cache))
             (createMainGoFile ctx fn (filepath_Join [appPath_of ctx, ''main.go''])
                functionsFrameworkVersion)
             (s @ vendored_setup ctx l fn @
               [EvLogf found_excluding, EvWarnf vendored_warning, EvTempDir cache,
                EvExec fetch_cmd (fetch_opts ctx cache),
                EvExec checkout_cmd (checkout_opts ctx)])"
  using assms
  by (simp add: createMainVendored_def run_defs vendored_defs Let_def)

lemma createMainVendored_setup_fails:
  assumes "\<not> vendored_setup_succeeds ctx l fn s"
  shows "\<exists>new. snd (createMainVendored ctx l fn s) = s @ new \<and> rendered new = []
           \<and> execs new = []"
proof -
  let ?a = "fails ctx (s @ take 2 (vendored_setup ctx l fn)) (vendored_setup ctx l fn ! 2)"
  let ?b = "fails ctx (s @ take 4 (vendored_setup ctx l fn)) (vendored_setup ctx l fn ! 4)"
  let ?c = "fails ctx (s @ take 5 (vendored_setup ctx l fn)) (vendored_setup ctx l fn ! 5)"
  from assms consider (a) e where "?a = Some e"
    | (b) e where "?a = None" "?b = Some e"
    | (c) e where "?a = None" "?b = None" "?c = Some e"
    unfolding vendored_setup_succeeds_def by (cases ?a; cases ?b; cases ?c) auto
  then show ?thesis
  proof cases
    case a
    then have "snd (createMainVendored ctx l fn s) = s @ take 2 (vendored_setup ctx l fn)"
      by (simp add: createMainVendored_def run_defs vendored_defs Let_def)
    moreover have "rendered (take 2 (vendored_setup ctx l fn)) = []"
      "execs (take 2 (vendored_setup ctx l fn)) = []"
      by (simp_all add: vendored_defs)
    ultimately show ?thesis by blast
  next
    case b
    then have "snd (createMainVendored ctx l fn s) = s @ take 4 (vendored_setup ctx l fn)"
      by (simp add: createMainVendored_def run_defs vendored_defs Let_def)
    moreover have "rendered (take 4 (vendored_setup ctx l fn)) = []"
      "execs (take 4 (vendored_setup ctx l fn)) = []"
      by (simp_all add: vendored_defs)
    ultimately show ?thesis by blast
  next
    case c
    then have "snd (createMainVendored ctx l fn s) = s @ take 5 (vendored_setup ctx l fn)"
      by (simp add: createMainVendored_def run_defs vendored_defs Let_def)
    moreover have "rendered (take 5 (vendored_setup ctx l fn)) = []"
      "execs (take 5 (vendored_setup ctx l fn)) = []"
      by (simp_all add: vendored_defs)
    ultimately show ?thesis by blast
  qed
qed

lemma createMainVendored_copy_fails:
  assumes "vendored_setup_succeeds ctx l fn s"
      and "FileExists ctx (s @ vendored_setup ctx l fn) [fnFrameworkVendoredPath_of ctx fn]"
      and "ExecWithErr ctx (s @ vendored_setup ctx l fn @ [EvLogf found_including])
             (copy_cmd ctx fn) [WithUserTimingAttribution] = ExecFailed r e"
  shows "createMainVendored ctx l fn s =
           (Exit e, s @ vendored_setup ctx l fn @
               [EvLogf found_including, EvExec (copy_cmd ctx fn) [WithUserTimingAttribution]])"
  using assms
  by (simp add: createMainVendored_def run_defs vendored_defs Let_def)

lemma createMainVendored_tempdir_fails:
  assumes "vendored_setup_succeeds ctx l fn s"
      and "\<not> FileExists ctx (s @ vendored_setup ctx l fn) [fnFrameworkVendoredPath_of ctx fn]"
      and "TempDir ctx (s @ vendored_setup ctx l fn @
              [EvLogf found_excluding, EvWarnf vendored_warning]) [] appName = Inl e"
  shows "createMainVendored ctx l fn s =
           (Exit e, s @ vendored_setup ctx l fn @
              [EvLogf found_excluding, EvWarnf vendored_warning])"
  using assms
  by (simp add: createMainVendored_def run_defs vendored_defs Let_def)

lemma createMainVendored_fetch_fails:
  assumes "vendored_setup_succeeds ctx l fn s"
      and "\<not> FileExists ctx (s @ vendored_setup ctx l fn) [fnFrameworkVendoredPath_of ctx fn]"
      and "TempDir ctx (s @ vendored_setup ctx l fn @
              [EvLogf found_excluding, EvWarnf vendored_warning]) [] appName = Inr cache"
      and "ExecWithErr ctx (s @ vendored_setup ctx l fn @
              [EvLogf found_excluding, EvWarnf vendored_warning, EvTempDir cache])
             fetch_cmd (fetch_opts ctx cache) = ExecFailed r e"
  shows "createMainVendored ctx l fn s =
           deferred (ctx_call ctx (EvRemoveAll cache)) (\<lambda>s. (Exit e, s))
             (s @ vendored_setup ctx l fn @
               [EvLogf found_excluding, EvWarnf vendored_warning, EvTempDir cache,
                EvExec fetch_cmd (fetch_opts ctx cache)])"
  using assms
  by (simp add: createMainVendored_def run_defs vendored_defs Let_def)

lemma createMainVendored_checkout_fails:
  assumes "vendored_setup_succeeds ctx l fn s"
      and "\<not> FileExists ctx (s @ vendored_setup ctx l fn) [fnFrameworkVendoredPath_of ctx fn]"
      and "TempDir ctx (s @ vendored_setup ctx l fn @
              [EvLogf found_excluding, EvWarnf vendored_warning]) [] appName = Inr cache"
      and "ExecWithErr ctx (s @ vendored_setup ctx l fn @
              [EvLogf found_excluding, EvWarnf vendored_warning, EvTempDir cache])
             fetch_cmd (fetch_opts ctx cache) = ExecOk r0"
      and "ExecWithErr ctx (s @ vendored_setup ctx l fn @
              [EvLogf found_excluding, EvWarnf vendored_warning, EvTempDir cache,
               EvExec fetch_cmd (fetch_opts ctx cache)])
             checkout_cmd (checkout_opts ctx) = ExecFailed r e"
  shows "createMainVendored ctx l fn s =
           deferred (ctx_call ctx (EvRemoveAll cache)) (\<lambda>s. (Exit e, s))
             (s @ vendored_setup ctx l fn @
               [EvLogf found_excluding, EvWarnf vendored_warning, EvTempDir cache,
                EvExec fetch_cmd (fetch_opts ctx cache),
                EvExec checkout_cmd (checkout_opts ctx)])"
  using assms
  by (simp add: createMainVendored_def run_defs vendored_defs Let_def)

lemma rendered_setup [simp]: "rendered (vendored_setup ctx l fn) = []"
  by (simp add: vendored_setup_def)

lemma execs_setup [simp]: "execs (vendored_setup ctx l fn) = []"
  by (simp add: vendored_setup_def)

text \<open>The renderer starts no command, whatever the version.\<close>

lemma createMainGoFile_no_execs:
  "\<exists>new. snd (createMainGoFile ctx fn m v s) = s @ new \<and> execs new = []"
proof -
  from createMainGoFile_events [of ctx fn m v s] show ?thesis
  proof (elim disjE exE conjE)
    assume "snd (createMainGoFile ctx fn m v s) = s"
    then have "snd (createMainGoFile ctx fn m v s) = s @ [] \<and> execs [] = []" by simp
    then show ?thesis by blast
  next
    assume "snd (createMainGoFile ctx fn m v s) = s @ [EvCreateFile m, EvClose m]"
    moreover have "execs [EvCreateFile m, EvClose m] = []" by simp
    ultimately show ?thesis by blast
  next
    fix rv
    assume "snd (createMainGoFile ctx fn m v s) =
        s @ [EvCreateFile m, EvTemplateExecute (if GE rv v1_1_0 then tmplV1_1 else tmplV0) m fn,
             EvClose m]"
    moreover have "execs [EvCreateFile m,
        EvTemplateExecute (if GE rv v1_1_0 then tmplV1_1 else tmplV0) m fn, EvClose m] = []"
      by simp
    ultimately show ?thesis by blast
  qed
qed

text \<open>The renderer called with the version-less marker renders the V0 template, if any.\<close>

lemma createMainGoFile_v0_0_0:
  "\<exists>new. snd (createMainGoFile ctx fn m ''v0.0.0'' s) = s @ new
     \<and> set (map fst (rendered new)) \<subseteq> {tmplV0}"
proof -
  from GE_v0_0_0 obtain z where z: "ParseTolerant ''v0.0.0'' = Inr z" "\<not> GE z v1_1_0" by blast
  from createMainGoFile_events [of ctx fn m "''v0.0.0''" s] show ?thesis
  proof (elim disjE exE conjE)
    assume "snd (createMainGoFile ctx fn m ''v0.0.0'' s) = s"
    then have "snd (createMainGoFile ctx fn m ''v0.0.0'' s) = s @ []
       \<and> set (map fst (rendered [])) \<subseteq> {tmplV0}" by simp
    then show ?thesis by blast
  next
    assume "snd (createMainGoFile ctx fn m ''v0.0.0'' s) = s @ [EvCreateFile m, EvClose m]"
    then have "snd (createMainGoFile ctx fn m ''v0.0.0'' s) = s @ [EvCreateFile m, EvClose m]
       \<and> set (map fst (rendered [EvCreateFile m, EvClose m])) \<subseteq> {tmplV0}" by simp
    then show ?thesis by blast
  next
    fix rv
    assume "ParseTolerant ''v0.0.0'' = Inr rv"
      and "snd (createMainGoFile ctx fn m ''v0.0.0'' s) =
        s @ [EvCreateFile m, EvTemplateExecute (if GE rv v1_1_0 then tmplV1_1 else tmplV0) m fn,
             EvClose m]"
    with z have "snd (createMainGoFile ctx fn m ''v0.0.0'' s) =
          s @ [EvCreateFile m, EvTemplateExecute tmplV0 m fn, EvClose m]
       \<and> set (map fst (rendered [EvCreateFile m, EvTemplateExecute tmplV0 m fn, EvClose m]))
           \<subseteq> {tmplV0}" by simp
    then show ?thesis by blast
  qed
qed

text \<open>A deferred removal adds at most the removal itself to the history.\<close>

lemma deferred_remove_events:
  "\<exists>tl. snd (deferred (ctx_call ctx (EvRemoveAll c)) m s) = snd (m s) @ tl
     \<and> execs tl = [] \<and> rendered tl = []"
proof (cases "fails ctx (snd (m s)) (EvRemoveAll c)")
  case None
  then have "snd (deferred (ctx_call ctx (EvRemoveAll c)) m s) = snd (m s) @ [EvRemoveAll c]"
    by (cases "m s") (simp add: deferred_def ctx_call_def)
  moreover have "execs [EvRemoveAll c] = []" "rendered [EvRemoveAll c] = []" by simp_all
  ultimately show ?thesis by blast
next
  case (Some e)
  then have "snd (deferred (ctx_call ctx (EvRemoveAll c)) m s) = snd (m s) @ []"
    by (cases "m s") (simp add: deferred_def ctx_call_def)
  then show ?thesis by fastforce
qed

lemma execs_found:
  assumes "FileExists ctx (s @ vendored_setup ctx l fn) [fnFrameworkVendoredPath_of ctx fn]"
  shows "execs (new_events s (createMainVendored ctx l fn s)) = []
       \<or> execs (new_events s (createMainVendored ctx l fn s)) = [copy_cmd ctx fn]"
proof (cases "vendored_setup_succeeds ctx l fn s")
  case False
  from createMainVendored_setup_fails [OF False] show ?thesis
    by (auto simp add: new_events_def)
next
  case True
  show ?thesis
  proof (cases "ExecWithErr ctx (s @ vendored_setup ctx l fn @ [EvLogf found_including])
             (copy_cmd ctx fn) [WithUserTimingAttribution]")
    case (ExecFailed r e)
    show ?thesis
      by (simp add: createMainVendored_copy_fails [OF True assms ExecFailed] new_events_def
          execs_append)
  next
    case (ExecOk r)
    let ?s' = "s @ vendored_setup ctx l fn @
               [EvLogf found_including, EvExec (copy_cmd ctx fn) [WithUserTimingAttribution]]"
    let ?m = "filepath_Join [appPath_of ctx, ''main.go'']"
    from createMainGoFile_no_execs [of ctx fn ?m "''v0.0.0''" ?s'] obtain new where
      new: "snd (createMainGoFile ctx fn ?m ''v0.0.0'' ?s') = ?s' @ new" "execs new = []" by blast
    show ?thesis
      using new
      by (simp add: createMainVendored_found [OF True assms ExecOk] new_events_def execs_append)
  qed
qed

lemma execs_not_found:
  assumes "\<not> FileExists ctx (s @ vendored_setup ctx l fn) [fnFrameworkVendoredPath_of ctx fn]"
  shows "execs (new_events s (createMainVendored ctx l fn s)) = []
       \<or> execs (new_events s (createMainVendored ctx l fn s)) = [fetch_cmd]
       \<or> execs (new_events s (createMainVendored ctx l fn s)) = [fetch_cmd, checkout_cmd]"
proof (cases "vendored_setup_succeeds ctx l fn s")
  case False
  from createMainVendored_setup_fails [OF False] show ?thesis
    by (auto simp add: new_events_def)
next
  case True
  let ?h = "s @ vendored_setup ctx l fn @ [EvLogf found_excluding, EvWarnf vendored_warning]"
  show ?thesis
  proof (cases "TempDir ctx ?h [] appName")
    case (Inl e)
    show ?thesis
      by (simp add: createMainVendored_tempdir_fails [OF True assms Inl] new_events_def
          execs_append)
  next
    case (Inr cache)
    let ?h1 = "s @ vendored_setup ctx l fn @
              [EvLogf found_excluding, EvWarnf vendored_warning, EvTempDir cache]"
    show ?thesis
    proof (cases "ExecWithErr ctx ?h1 fetch_cmd (fetch_opts ctx cache)")
      case (ExecFailed r e)
      let ?h2 = "?h1 @ [EvExec fetch_cmd (fetch_opts ctx cache)]"
      from deferred_remove_events
        [of ctx cache "\<lambda>s. (Exit e :: go_error option outcome, s)" ?h2]
      obtain tl where
        tl: "snd (deferred (ctx_call ctx (EvRemoveAll cache))
                   (\<lambda>s. (Exit e :: go_error option outcome, s)) ?h2) = ?h2 @ tl"
          "execs tl = []" by auto
      have "snd (createMainVendored ctx l fn s) = ?h2 @ tl"
        using tl(1) by (simp add: createMainVendored_fetch_fails [OF True assms Inr ExecFailed])
      then have "execs (new_events s (createMainVendored ctx l fn s)) = [fetch_cmd]"
        using tl(2) by (simp add: new_events_def execs_append)
      then show ?thesis by simp
    next
      case fetched: (ExecOk r0)
      let ?h2 = "?h1 @ [EvExec fetch_cmd (fetch_opts ctx cache)]"
      let ?h3 = "?h2 @ [EvExec checkout_cmd (checkout_opts ctx)]"
      show ?thesis
      proof (cases "ExecWithErr ctx ?h2 checkout_cmd (checkout_opts ctx)")
        case (ExecFailed r e)
        from deferred_remove_events
          [of ctx cache "\<lambda>s. (Exit e :: go_error option outcome, s)" ?h3]
        obtain tl where
          tl: "snd (deferred (ctx_call ctx (EvRemoveAll cache))
                     (\<lambda>s. (Exit e :: go_error option outcome, s)) ?h3) = ?h3 @ tl"
            "execs tl = []" by auto
        have "snd (createMainVendored ctx l fn s) = ?h3 @ tl"
          using tl(1) fetched ExecFailed
          by (simp add: createMainVendored_checkout_fails [OF True assms Inr])
        then have "execs (new_events s (createMainVendored ctx l fn s)) =
            [fetch_cmd, checkout_cmd]"
          using tl(2) by (simp add: new_events_def execs_append)
        then show ?thesis by simp
      next
        case (ExecOk r1)
        let ?m = "filepath_Join [appPath_of ctx, ''main.go'']"
        let ?f = "createMainGoFile ctx fn ?m functionsFrameworkVersion"
        from createMainGoFile_no_execs [of ctx fn ?m functionsFrameworkVersion ?h3] obtain new
          where new: "snd (?f ?h3) = ?h3 @ new" "execs new = []" by blast
        from deferred_remove_events [of ctx cache ?f ?h3] obtain tl where
          tl: "snd (deferred (ctx_call ctx (EvRemoveAll cache)) ?f ?h3) = snd (?f ?h3) @ tl"
            "execs tl = []" by auto
        have "snd (createMainVendored ctx l fn s) = ?h3 @ new @ tl"
          using tl(1) new(1) fetched ExecOk
          by (simp add: createMainVendored_fetch [OF True assms Inr])
        then have "execs (new_events s (createMainVendored ctx l fn s)) =
            [fetch_cmd, checkout_cmd]"
          using tl(2) new(2) by (simp add: new_events_def execs_append)
        then show ?thesis by simp
      qed
    qed
  qed
qed

lemma rendered_found:
  assumes "FileExists ctx (s @ vendored_setup ctx l fn) [fnFrameworkVendoredPath_of ctx fn]"
  shows "set (map fst (rendered (new_events s (createMainVendored ctx l fn s)))) \<subseteq> {tmplV0}"
proof (cases "vendored_setup_succeeds ctx l fn s")
  case False
  from createMainVendored_setup_fails [OF False] show ?thesis
    by (auto simp add: new_events_def)
next
  case True
  show ?thesis
  proof (cases "ExecWithErr ctx (s @ vendored_setup ctx l fn @ [EvLogf found_including])
             (copy_cmd ctx fn) [WithUserTimingAttribution]")
    case (ExecFailed r e)
    show ?thesis
      by (simp add: createMainVendored_copy_fails [OF True assms ExecFailed] new_events_def
          rendered_append)
  next
    case (ExecOk r)
    let ?s' = "s @ vendored_setup ctx l fn @
               [EvLogf found_including, EvExec (copy_cmd ctx fn) [WithUserTimingAttribution]]"
    let ?m = "filepath_Join [appPath_of ctx, ''main.go'']"
    from createMainGoFile_v0_0_0 [of ctx fn ?m ?s'] obtain new where
      new: "snd (createMainGoFile ctx fn ?m ''v0.0.0'' ?s') = ?s' @ new"
           "set (map fst (rendered new)) \<subseteq> {tmplV0}" by blast
    show ?thesis
      using new
      by (simp add: createMainVendored_found [OF True assms ExecOk] new_events_def rendered_append)
  qed
qed

text \<open>
  C3 (amended): given that the entry-point file can be created, the renderer selects the V0
  template for the version strings 1.0.9, 1.1.0-rc1 and 1.0.10 and the V1_1 template for 1.1.0
  and 2.0.0. The pre-release 1.1.0-rc1 precedes 1.1.0 in the order of semantic versions, so it
  is below the threshold.
\<close>

theorem createMainGoFile_thresholding:
  assumes "fails ctx s (EvCreateFile main) = None"
  shows "rendered (new_events s (createMainGoFile ctx fn main ''1.0.9'' s)) = [(tmplV0, main, fn)]
       \<and> rendered (new_events s (createMainGoFile ctx fn main ''1.1.0'' s)) = [(tmplV1_1, main, fn)]
       \<and> rendered (new_events s (createMainGoFile ctx fn main ''1.1.0-rc1'' s)) = [(tmplV0, main, fn)]
       \<and> rendered (new_events s (createMainGoFile ctx fn main ''2.0.0'' s)) = [(tmplV1_1, main, fn)]
       \<and> rendered (new_events s (createMainGoFile ctx fn main ''1.0.10'' s)) = [(tmplV0, main, fn)]"
proof -
  note r = rendered_createMainGoFile [OF assms]
  from GE_1_0_9 obtain a where "ParseTolerant ''1.0.9'' = Inr a" "\<not> GE a v1_1_0" by blast
  then have 1: "rendered (new_events s (createMainGoFile ctx fn main ''1.0.9'' s)) =
      [(tmplV0, main, fn)]"
    by (simp add: r)
  from GE_1_1_0 obtain b where "ParseTolerant ''1.1.0'' = Inr b" "GE b v1_1_0" by blast
  then have 2: "rendered (new_events s (createMainGoFile ctx fn main ''1.1.0'' s)) =
      [(tmplV1_1, main, fn)]"
    by (simp add: r)
  from GE_1_1_0_rc1 obtain c where "ParseTolerant ''1.1.0-rc1'' = Inr c" "\<not> GE c v1_1_0"
    by blast
  then have 3: "rendered (new_events s (createMainGoFile ctx fn main ''1.1.0-rc1'' s)) =
      [(tmplV0, main, fn)]"
    by (simp add: r)
  from GE_2_0_0 obtain d where "ParseTolerant ''2.0.0'' = Inr d" "GE d v1_1_0" by blast
  then have 4: "rendered (new_events s (createMainGoFile ctx fn main ''2.0.0'' s)) =
      [(tmplV1_1, main, fn)]"
    by (simp add: r)
  from GE_1_0_10 obtain e where "ParseTolerant ''1.0.10'' = Inr e" "\<not> GE e v1_1_0" by blast
  then have 5: "rendered (new_events s (createMainGoFile ctx fn main ''1.0.10'' s)) =
      [(tmplV0, main, fn)]"
    by (simp add: r)
  from 1 2 3 4 5 show ?thesis by blast
qed

theorem createMainGoFile_thresholding_witness:
  "fails quiet_ctx [] (EvCreateFile ''/workspace/main.go'') = None
   \<and> rendered (new_events [] (createMainGoFile quiet_ctx sample_fn ''/workspace/main.go'' ''1.0.9'' []))
       = [(tmplV0, ''/workspace/main.go'', sample_fn)]
   \<and> rendered (new_events [] (createMainGoFile quiet_ctx sample_fn ''/workspace/main.go'' ''1.1.0'' []))
       = [(tmplV1_1, ''/workspace/main.go'', sample_fn)]
   \<and> rendered (new_events [] (createMainGoFile quiet_ctx sample_fn ''/workspace/main.go'' ''1.1.0-rc1'' []))
       = [(tmplV0, ''/workspace/main.go'', sample_fn)]
   \<and> rendered (new_events [] (createMainGoFile quiet_ctx sample_fn ''/workspace/main.go'' ''2.0.0'' []))
       = [(tmplV1_1, ''/workspace/main.go'', sample_fn)]
   \<and> rendered (new_events [] (createMainGoFile quiet_ctx sample_fn ''/workspace/main.go'' ''1.0.10'' []))
       = [(tmplV0, ''/workspace/main.go'', sample_fn)]"
proof -
  have h: "fails quiet_ctx [] (EvCreateFile ''/workspace/main.go'') = None"
    by (simp add: sample_defs)
  show ?thesis
    using h createMainGoFile_thresholding [OF h, of sample_fn] by blast
qed

text \<open>For the version string 1.1.0-rc1 the template rendered is not V1_1.\<close>

theorem createMainGoFile_rc1_counterexample:
  "rendered (new_events [] (createMainGoFile quiet_ctx sample_fn ''/workspace/main.go'' ''1.1.0-rc1'' []))
     \<noteq> [(tmplV1_1, ''/workspace/main.go'', sample_fn)]"
proof -
  have h: "fails quiet_ctx [] (EvCreateFile ''/workspace/main.go'') = None"
    by (simp add: sample_defs)
  from GE_1_1_0_rc1 obtain c where c: "ParseTolerant ''1.1.0-rc1'' = Inr c" "\<not> GE c v1_1_0"
    by blast
  show ?thesis
    by (simp add: rendered_createMainGoFile [OF h c(1)] c(2))
qed

subsection \<open>Temporary directories\<close>

lemma temp_dirs_after_split:
  "temp_dirs_after ds xs = filter (\<lambda>d. EvRemoveAll d \<notin> set xs) ds @ temp_dirs_after [] xs"
proof (induction xs arbitrary: ds)
  case Nil
  show ?case by simp
next
  case (Cons ev evs)
  note IH = Cons.IH
  show ?case
  proof (cases ev)
    case (EvTempDir d)
    then show ?thesis using IH [of "ds @ [d]"] IH [of "[d]"] by simp
  next
    case (EvRemoveAll p)
    have "filter (\<lambda>d. EvRemoveAll d \<notin> set evs) (filter (\<lambda>d. d \<noteq> p) ds) =
          filter (\<lambda>d. EvRemoveAll d \<notin> set (ev # evs)) ds"
      using EvRemoveAll by (induction ds) auto
    then show ?thesis using EvRemoveAll IH [of "filter (\<lambda>d. d \<noteq> p) ds"] by simp
  qed (use IH [of ds] in simp_all)
qed

lemma live_temp_dirs_append:
  "live_temp_dirs xs = [] \<Longrightarrow> live_temp_dirs (xs @ ys) = live_temp_dirs ys"
proof -
  have "temp_dirs_after ds (xs @ ys) = temp_dirs_after (temp_dirs_after ds xs) ys" for ds
    by (induction ds xs rule: temp_dirs_after.induct) simp_all
  then show "live_temp_dirs xs = [] \<Longrightarrow> live_temp_dirs (xs @ ys) = live_temp_dirs ys"
    by (simp add: live_temp_dirs_def)
qed

lemma tidy_ret: "tidy (ret x)"
  by (simp add: tidy_def ret_def live_temp_dirs_def)

lemma tidy_exit: "tidy (\<lambda>s. (Exit e, s))"
  by (simp add: tidy_def live_temp_dirs_def)

lemma tidy_andThen:
  assumes "tidy m" and "\<And>a. tidy (f a)"
  shows "tidy (andThen m f)"
  unfolding tidy_def
proof
  fix s
  from assms(1) obtain n1 where n1: "snd (m s) = s @ n1" "live_temp_dirs n1 = []"
    unfolding tidy_def by blast
  show "\<exists>new. snd (andThen m f s) = s @ new \<and> live_temp_dirs new = []"
  proof (cases "m s")
    case (Pair r s')
    with n1 have s': "s' = s @ n1" by simp
    show ?thesis
    proof (cases r)
      case (Ret a)
      from assms(2) [of a] obtain n2 where n2: "snd (f a s') = s' @ n2" "live_temp_dirs n2 = []"
        unfolding tidy_def by blast
      have "snd (andThen m f s) = s @ (n1 @ n2)"
        using Pair Ret n2 s' by (simp add: andThen_def)
      moreover have "live_temp_dirs (n1 @ n2) = []"
        using n1 n2 by (simp add: live_temp_dirs_append)
      ultimately show ?thesis by blast
    next
      case (Exit e)
      then have "snd (andThen m f s) = s @ n1"
        using Pair s' by (simp add: andThen_def)
      with n1 show ?thesis by blast
    qed
  qed
qed

lemma tidy_if: "tidy a \<Longrightarrow> tidy b \<Longrightarrow> tidy (if c then a else b)"
  by simp

lemma tidy_emit: "live_temp_dirs [ev] = [] \<Longrightarrow> tidy (emit ev)"
  by (simp add: tidy_def emit_def)

lemma tidy_ctx_call: "live_temp_dirs [ev] = [] \<Longrightarrow> tidy (ctx_call ctx ev)"
  by (auto simp add: tidy_def ctx_call_def live_temp_dirs_def split: option.splits)

lemma tidy_ctx_ExecWithErr: "tidy (ctx_ExecWithErr ctx cmd opts)"
  by (simp add: tidy_def ctx_ExecWithErr_def live_temp_dirs_def)

lemma tidy_ctx_Exec: "tidy (ctx_Exec ctx cmd opts)"
  unfolding ctx_Exec_def
  by (rule tidy_andThen [OF tidy_ctx_ExecWithErr]) (simp add: tidy_ret tidy_exit split: exec_outcome.splits)

lemma tidy_query:
  "tidy (ctx_FileExists ctx elem)" "tidy (os_Stat ctx name)" "tidy (golang_SupportsNoGoMod ctx)"
  by (simp_all add: tidy_def ctx_FileExists_def os_Stat_def golang_SupportsNoGoMod_def
      live_temp_dirs_def)

lemma tidy_log: "tidy (ctx_Logf msg)" "tidy (ctx_Warnf msg)"
  by (simp_all add: ctx_Logf_def ctx_Warnf_def tidy_emit live_temp_dirs_def)

lemma tidy_ctx_Layer: "tidy (ctx_Layer ctx name)"
  by (simp add: ctx_Layer_def Let_def tidy_andThen tidy_ctx_call tidy_ret live_temp_dirs_def)

text \<open>A temporary directory whose removal is deferred is gone when the function is left.\<close>

lemma tidy_TempDir:
  assumes rm: "\<forall>h d. fails ctx h (EvRemoveAll d) = None" and body: "\<And>c. tidy (body c)"
  shows "tidy (andThen (ctx_TempDir ctx dir pattern)
                 (\<lambda>c. deferred (ctx_call ctx (EvRemoveAll c)) (body c)))"
  unfolding tidy_def
proof
  fix s
  show "\<exists>new. snd (andThen (ctx_TempDir ctx dir pattern)
                 (\<lambda>c. deferred (ctx_call ctx (EvRemoveAll c)) (body c)) s) = s @ new
          \<and> live_temp_dirs new = []"
  proof (cases "TempDir ctx s dir pattern")
    case (Inl e)
    then show ?thesis
      by (simp add: andThen_def ctx_TempDir_def live_temp_dirs_def)
  next
    case (Inr c)
    from body [of c] obtain n where n: "snd (body c (s @ [EvTempDir c])) = (s @ [EvTempDir c]) @ n"
      "live_temp_dirs n = []"
      unfolding tidy_def by blast
    have "snd (andThen (ctx_TempDir ctx dir pattern)
                 (\<lambda>c. deferred (ctx_call ctx (EvRemoveAll c)) (body c)) s)
          = s @ ([EvTempDir c] @ n @ [EvRemoveAll c])"
      using Inr n(1) rm
      by (cases "body c (s @ [EvTempDir c])")
         (simp add: andThen_def ctx_TempDir_def deferred_def ctx_call_def)
    moreover have "live_temp_dirs ([EvTempDir c] @ n @ [EvRemoveAll c]) = []"
    proof -
      have "temp_dirs_after [c] (n @ [EvRemoveAll c]) =
              filter (\<lambda>d. EvRemoveAll d \<notin> set (n @ [EvRemoveAll c])) [c]
              @ temp_dirs_after [] (n @ [EvRemoveAll c])"
        by (rule temp_dirs_after_split)
      moreover have "temp_dirs_after [] (n @ [EvRemoveAll c]) = []"
        using live_temp_dirs_append [OF n(2), of "[EvRemoveAll c]"]
        by (simp add: live_temp_dirs_def)
      ultimately show ?thesis by (simp add: live_temp_dirs_def)
    qed
    ultimately show ?thesis by blast
  qed
qed

lemma tidy_createMainGoFile: "tidy (createMainGoFile ctx fn main version)"
  unfolding tidy_def
proof
  fix s
  from createMainGoFile_events [of ctx fn main version s]
  show "\<exists>new. snd (createMainGoFile ctx fn main version s) = s @ new \<and> live_temp_dirs new = []"
  proof (elim disjE exE conjE)
    assume "snd (createMainGoFile ctx fn main version s) = s"
    then have "snd (createMainGoFile ctx fn main version s) = s @ [] \<and> live_temp_dirs [] = []"
      by (simp add: live_temp_dirs_def)
    then show ?thesis by blast
  next
    assume "snd (createMainGoFile ctx fn main version s) = s @ [EvCreateFile main, EvClose main]"
    moreover have "live_temp_dirs [EvCreateFile main, EvClose main] = []"
      by (simp add: live_temp_dirs_def)
    ultimately show ?thesis by blast
  next
    fix rv
    assume "snd (createMainGoFile ctx fn main version s) =
        s @ [EvCreateFile main,
             EvTemplateExecute (if GE rv v1_1_0 then tmplV1_1 else tmplV0) main fn, EvClose main]"
    moreover have "live_temp_dirs [EvCreateFile main,
             EvTemplateExecute (if GE rv v1_1_0 then tmplV1_1 else tmplV0) main fn, EvClose main] = []"
      by (simp add: live_temp_dirs_def)
    ultimately show ?thesis by blast
  qed
qed

lemmas tidy_intros = tidy_ret tidy_exit tidy_emit tidy_ctx_call tidy_ctx_Exec tidy_ctx_ExecWithErr
  tidy_query tidy_log tidy_ctx_Layer tidy_createMainGoFile tidy_if

lemma tidy_extractPackageNameInDir:
  assumes "\<forall>h d. fails ctx h (EvRemoveAll d) = None"
  shows "tidy (extractPackageNameInDir ctx source)"
  unfolding extractPackageNameInDir_def Let_def
  by ((rule tidy_TempDir [OF assms] | rule tidy_andThen | rule tidy_intros
       | simp add: live_temp_dirs_def)+)

lemma tidy_createMainVendored:
  assumes "\<forall>h d. fails ctx h (EvRemoveAll d) = None"
  shows "tidy (createMainVendored ctx l fn)"
  unfolding createMainVendored_def Let_def
  by ((rule tidy_TempDir [OF assms] | rule tidy_andThen | rule tidy_intros
       | simp add: live_temp_dirs_def)+)


lemma tidy_frameworkSpecifiedVersion: "tidy (frameworkSpecifiedVersion ctx src)"
  unfolding frameworkSpecifiedVersion_def Let_def
  by ((rule tidy_andThen | rule tidy_intros | intro conjI impI allI
       | simp add: live_temp_dirs_def split: exec_outcome.splits option.splits)+)

lemma tidy_createMainGoMod: "tidy (createMainGoMod ctx fn)"
  unfolding createMainGoMod_def createMainGoMod_rest_def Let_def
  by ((rule tidy_andThen | rule tidy_intros | rule tidy_frameworkSpecifiedVersion
       | intro conjI impI allI
       | simp add: live_temp_dirs_def split: option.splits prod.splits)+)

lemma tidy_register_web_process: "tidy (register_web_process ctx err)"
  unfolding register_web_process_def
  by ((rule tidy_andThen | rule tidy_intros | intro conjI impI allI
       | simp add: live_temp_dirs_def split: option.splits)+)

lemma tidy_buildFn:
  assumes "\<forall>h d. fails ctx h (EvRemoveAll d) = None"
  shows "tidy (buildFn ctx)"
  unfolding buildFn_def buildFn_relocate_def buildFn_strategy_def Let_def
  by ((rule tidy_andThen | rule tidy_intros | rule tidy_createMainGoMod
       | rule tidy_createMainVendored [OF assms] | rule tidy_extractPackageNameInDir [OF assms]
       | rule tidy_register_web_process
       | intro conjI impI allI
       | simp add: live_temp_dirs_def split: option.splits prod.splits)+)

lemma tidy_new_events:
  assumes "tidy m"
  shows "live_temp_dirs (new_events s (m s)) = []"
proof -
  from assms obtain new where "snd (m s) = s @ new" "live_temp_dirs new = []"
    unfolding tidy_def by blast
  then show ?thesis by (simp add: new_events_def)
qed

text \<open>
  C8: provided that removing a directory does not itself fail, no temporary directory created
  by the package name extraction, by the vendored build or by the build as a whole is left
  when that step ends, whether it returns or the build is aborted within it.
\<close>

theorem temporary_directories_removed:
  assumes "\<forall>h d. fails ctx h (EvRemoveAll d) = None"
  shows "live_temp_dirs (new_events s (extractPackageNameInDir ctx source s)) = []
       \<and> live_temp_dirs (new_events s (createMainVendored ctx l fn s)) = []
       \<and> live_temp_dirs (new_events s (buildFn ctx s)) = []"
  using tidy_extractPackageNameInDir [OF assms] tidy_createMainVendored [OF assms]
    tidy_buildFn [OF assms]
  by (simp add: tidy_new_events)

text \<open>The package name extraction when its command fails: the build is aborted and the
  cache directory removed.\<close>

lemma extract_failing_run:
  "extractPackageNameInDir failing_ctx ''/workspace/serverless_function_source_code'' [] =
     (Exit (ToolError ''exit status 1''),
      [EvTempDir ''/tmp/serverless_function_app1'',
       EvExec [''go'', ''run'', ''main'', ''-dir'', ''/workspace/serverless_function_source_code'']
         [WithEnv [''GOPATH=/cnb/buildpack/converter/get_package'',
                   ''GOCACHE=/tmp/serverless_function_app1''],
          WithWorkDir ''/cnb/buildpack/converter/get_package'', WithUserAttribution],
       EvRemoveAll ''/tmp/serverless_function_app1''])"
  by (simp add: extractPackageNameInDir_def run_defs sample_defs path_defs const_defs Let_def)

theorem temporary_directories_removed_witness:
  "(\<forall>h d. fails failing_ctx h (EvRemoveAll d) = None)
   \<and> fst (extractPackageNameInDir failing_ctx ''/workspace/serverless_function_source_code'' [])
       = Exit (ToolError ''exit status 1'')
   \<and> EvTempDir ''/tmp/serverless_function_app1'' \<in> set (new_events []
        (extractPackageNameInDir failing_ctx ''/workspace/serverless_function_source_code'' []))
   \<and> live_temp_dirs (new_events []
        (extractPackageNameInDir failing_ctx ''/workspace/serverless_function_source_code'' [])) = []
   \<and> live_temp_dirs (new_events [] (createMainVendored failing_ctx sample_layer sample_fn [])) = []
   \<and> live_temp_dirs (new_events [] (buildFn failing_ctx [])) = []"
proof -
  have h: "\<forall>h d. fails failing_ctx h (EvRemoveAll d) = None"
    by (simp add: sample_defs)
  have e: "fst (extractPackageNameInDir failing_ctx
                 ''/workspace/serverless_function_source_code'' [])
       = Exit (ToolError ''exit status 1'')"
    "EvTempDir ''/tmp/serverless_function_app1'' \<in> set (new_events []
        (extractPackageNameInDir failing_ctx ''/workspace/serverless_function_source_code'' []))"
    by (simp_all add: extract_failing_run new_events_def)
  show ?thesis
    using h e temporary_directories_removed [OF h] by blast
qed

subsection \<open>What the vendored build starts and renders\<close>

lemma output_of_ok: "output_of x \<noteq> None \<Longrightarrow> \<exists>r. x = ExecOk r"
  by (cases x) simp_all

text \<open>
  C9: when the vendored build finds a vendored copy of the framework in the function source,
  every template it renders is the V0 template, however the build goes on; and when the
  setup, the copy and the creation of the entry-point file succeed, it renders exactly the V0
  template, into main.go of the application directory, with the function information. The
  version-less marker v0.0.0 handed to the renderer is below the threshold.
\<close>

theorem vendored_framework_renders_V0:
  assumes "FileExists ctx (s @ vendored_setup ctx l fn) [fnFrameworkVendoredPath_of ctx fn]"
  shows "set (map fst (rendered (new_events s (createMainVendored ctx l fn s)))) \<subseteq> {tmplV0}
       \<and> (vendored_setup_succeeds ctx l fn s
          \<and> output_of (ExecWithErr ctx (s @ vendored_setup ctx l fn @ [EvLogf found_including])
                (copy_cmd ctx fn) [WithUserTimingAttribution]) \<noteq> None
          \<and> fails ctx (s @ vendored_setup ctx l fn @
                [EvLogf found_including, EvExec (copy_cmd ctx fn) [WithUserTimingAttribution]])
              (EvCreateFile (filepath_Join [appPath_of ctx, ''main.go''])) = None
          \<longrightarrow> rendered (new_events s (createMainVendored ctx l fn s)) =
                [(tmplV0, filepath_Join [appPath_of ctx, ''main.go''], fn)])"
proof (intro conjI impI)
  show "set (map fst (rendered (new_events s (createMainVendored ctx l fn s)))) \<subseteq> {tmplV0}"
    by (rule rendered_found [OF assms])
next
  let ?s' = "s @ vendored_setup ctx l fn @
                [EvLogf found_including, EvExec (copy_cmd ctx fn) [WithUserTimingAttribution]]"
  let ?m = "filepath_Join [appPath_of ctx, ''main.go'']"
  assume h: "vendored_setup_succeeds ctx l fn s
          \<and> output_of (ExecWithErr ctx (s @ vendored_setup ctx l fn @ [EvLogf found_including])
                (copy_cmd ctx fn) [WithUserTimingAttribution]) \<noteq> None
          \<and> fails ctx ?s' (EvCreateFile ?m) = None"
  then obtain r where r: "ExecWithErr ctx (s @ vendored_setup ctx l fn @ [EvLogf found_including])
                (copy_cmd ctx fn) [WithUserTimingAttribution] = ExecOk r"
    using output_of_ok by blast
  from h have ok: "vendored_setup_succeeds ctx l fn s" and cf: "fails ctx ?s' (EvCreateFile ?m) = None"
    by simp_all
  from GE_v0_0_0 obtain z where z: "ParseTolerant ''v0.0.0'' = Inr z" "\<not> GE z v1_1_0" by blast
  have "createMainVendored ctx l fn s = createMainGoFile ctx fn ?m ''v0.0.0'' ?s'"
    by (rule createMainVendored_found [OF ok assms r])
  then show "rendered (new_events s (createMainVendored ctx l fn s)) = [(tmplV0, ?m, fn)]"
    using z(2)
    by (simp add: createMainGoFile_render [OF cf z(1)] new_events_def rendered_append)
qed

text \<open>The vendored build in the sample world with a vendored framework.\<close>

lemma vendored_run:
  "createMainVendored vendored_ctx sample_layer sample_fn [] =
     (Ret None,
      vendored_setup vendored_ctx sample_layer sample_fn @
      [EvLogf found_including,
       EvExec (copy_cmd vendored_ctx sample_fn) [WithUserTimingAttribution],
       EvCreateFile ''/workspace/src/serverless_function_app/main/main.go'',
       EvTemplateExecute tmplV0 ''/workspace/src/serverless_function_app/main/main.go'' sample_fn,
       EvClose ''/workspace/src/serverless_function_app/main/main.go''])"
  by (simp add: createMainVendored_def createMainGoFile_def run_defs sample_defs path_defs
      const_defs vendored_defs Let_def semver_defs GE_def Compare_def)

theorem vendored_framework_renders_V0_witness:
  "FileExists vendored_ctx ([] @ vendored_setup vendored_ctx sample_layer sample_fn)
     [fnFrameworkVendoredPath_of vendored_ctx sample_fn]
   \<and> set (map fst (rendered (new_events []
         (createMainVendored vendored_ctx sample_layer sample_fn [])))) \<subseteq> {tmplV0}
   \<and> rendered (new_events [] (createMainVendored vendored_ctx sample_layer sample_fn [])) =
       [(tmplV0, ''/workspace/src/serverless_function_app/main/main.go'', sample_fn)]"
proof -
  have h: "FileExists vendored_ctx ([] @ vendored_setup vendored_ctx sample_layer sample_fn)
     [fnFrameworkVendoredPath_of vendored_ctx sample_fn]"
    by (simp add: sample_defs)
  have "rendered (new_events [] (createMainVendored vendored_ctx sample_layer sample_fn [])) =
       [(tmplV0, ''/workspace/src/serverless_function_app/main/main.go'', sample_fn)]"
    by (simp add: vendored_run new_events_def rendered_append)
  then show ?thesis
    using h vendored_framework_renders_V0 [OF h] by blast
qed

text \<open>
  C4: the vendored build takes one of two branches. If the vendored framework exists in the
  moved function source, the only command it can start is the copy of the vendor tree into the
  application directory (no fetch, no checkout), and when the setup and the copy succeed, the
  build continues as the renderer called with the version-less marker v0.0.0, after exactly
  that one copy. Otherwise the commands it starts are a fetch, then a checkout of the pinned
  tag, and nothing else; when the setup, the creation of the cache directory, the fetch and
  the checkout succeed, the build has logged the warning and continues as the renderer called
  with the pinned default version, followed by the deferred removal of the cache directory,
  after exactly one fetch and one checkout.
\<close>

theorem createMainVendored_branches:
  "(FileExists ctx (s @ vendored_setup ctx l fn) [fnFrameworkVendoredPath_of ctx fn] \<longrightarrow>
      (execs (new_events s (createMainVendored ctx l fn s)) = []
       \<or> execs (new_events s (createMainVendored ctx l fn s)) = [copy_cmd ctx fn])
    \<and> (vendored_setup_succeeds ctx l fn s
        \<and> ExecWithErr ctx (s @ vendored_setup ctx l fn @ [EvLogf found_including])
             (copy_cmd ctx fn) [WithUserTimingAttribution] = ExecOk r
        \<longrightarrow> createMainVendored ctx l fn s =
              createMainGoFile ctx fn (filepath_Join [appPath_of ctx, ''main.go'']) ''v0.0.0''
                (s @ vendored_setup ctx l fn @
                  [EvLogf found_including, EvExec (copy_cmd ctx fn) [WithUserTimingAttribution]])
            \<and> execs (new_events s (createMainVendored ctx l fn s)) = [copy_cmd ctx fn]))
   \<and> (\<not> FileExists ctx (s @ vendored_setup ctx l fn) [fnFrameworkVendoredPath_of ctx fn] \<longrightarrow>
      (execs (new_events s (createMainVendored ctx l fn s)) = []
       \<or> execs (new_events s (createMainVendored ctx l fn s)) = [fetch_cmd]
       \<or> execs (new_events s (createMainVendored ctx l fn s)) = [fetch_cmd, checkout_cmd])
    \<and> (vendored_setup_succeeds ctx l fn s
        \<and> TempDir ctx (s @ vendored_setup ctx l fn @
              [EvLogf found_excluding, EvWarnf vendored_warning]) [] appName = Inr cache
        \<and> ExecWithErr ctx (s @ vendored_setup ctx l fn @
              [EvLogf found_excluding, EvWarnf vendored_warning, EvTempDir cache])
             fetch_cmd (fetch_opts ctx cache) = ExecOk r0
        \<and> ExecWithErr ctx (s @ vendored_setup ctx l fn @
              [EvLogf found_excluding, EvWarnf vendored_warning, EvTempDir cache,
               EvExec fetch_cmd (fetch_opts ctx cache)])
             checkout_cmd (checkout_opts ctx) = ExecOk r1
        \<longrightarrow> createMainVendored ctx l fn s =
              deferred (ctx_call ctx (EvRemoveAll cache))
                (createMainGoFile ctx fn (filepath_Join [appPath_of ctx, ''main.go''])
                   functionsFrameworkVersion)
                (s @ vendored_setup ctx l fn @
                  [EvLogf found_excluding, EvWarnf vendored_warning, EvTempDir cache,
                   EvExec fetch_cmd (fetch_opts ctx cache),
                   EvExec checkout_cmd (checkout_opts ctx)])
            \<and> execs (new_events s (createMainVendored ctx l fn s)) = [fetch_cmd, checkout_cmd]))"
  (is "(?found \<longrightarrow> ?A \<and> (?okA \<longrightarrow> ?eqA \<and> ?exA)) \<and> (\<not> ?found \<longrightarrow> ?B \<and> (?okB \<longrightarrow> ?eqB \<and> ?exB))")
proof (intro conjI impI)
  assume f: ?found
  show ?A by (rule execs_found [OF f])
  assume ok: ?okA
  show eq: ?eqA using createMainVendored_found [OF _ f] ok by blast
  let ?s' = "s @ vendored_setup ctx l fn @
                  [EvLogf found_including, EvExec (copy_cmd ctx fn) [WithUserTimingAttribution]]"
  from createMainGoFile_no_execs [of ctx fn "filepath_Join [appPath_of ctx, ''main.go'']" "''v0.0.0''" ?s']
  obtain new where "snd (createMainGoFile ctx fn (filepath_Join [appPath_of ctx, ''main.go'']) ''v0.0.0'' ?s') = ?s' @ new"
    "execs new = []" by blast
  then show ?exA by (simp add: eq new_events_def execs_append)
next
  assume f: "\<not> ?found"
  show ?B by (rule execs_not_found [OF f])
  assume ok: ?okB
  show eq: ?eqB using createMainVendored_fetch [OF _ f] ok by blast
  let ?s' = "s @ vendored_setup ctx l fn @
                  [EvLogf found_excluding, EvWarnf vendored_warning, EvTempDir cache,
                   EvExec fetch_cmd (fetch_opts ctx cache),
                   EvExec checkout_cmd (checkout_opts ctx)]"
  let ?f = "createMainGoFile ctx fn (filepath_Join [appPath_of ctx, ''main.go'']) functionsFrameworkVersion"
  from createMainGoFile_no_execs [of ctx fn "filepath_Join [appPath_of ctx, ''main.go'']" functionsFrameworkVersion ?s']
  obtain new where new: "snd (?f ?s') = ?s' @ new" "execs new = []" by blast
  from deferred_remove_events [of ctx cache ?f ?s'] obtain tl where
    tl: "snd (deferred (ctx_call ctx (EvRemoveAll cache)) ?f ?s') = snd (?f ?s') @ tl"
      "execs tl = []" by auto
  show ?exB using new tl by (simp add: eq new_events_def execs_append)
qed


theorem createMainVendored_branches_witness:
  "FileExists vendored_ctx ([] @ vendored_setup vendored_ctx sample_layer sample_fn)
     [fnFrameworkVendoredPath_of vendored_ctx sample_fn]
   \<and> vendored_setup_succeeds vendored_ctx sample_layer sample_fn []
   \<and> createMainVendored vendored_ctx sample_layer sample_fn [] =
       createMainGoFile vendored_ctx sample_fn
         (filepath_Join [appPath_of vendored_ctx, ''main.go'']) ''v0.0.0''
         ([] @ vendored_setup vendored_ctx sample_layer sample_fn @
           [EvLogf found_including,
            EvExec (copy_cmd vendored_ctx sample_fn) [WithUserTimingAttribution]])
   \<and> execs (new_events [] (createMainVendored vendored_ctx sample_layer sample_fn [])) =
       [[''cp'', ''-r'', ''/workspace/src/hello/vendor'',
         ''/workspace/src/serverless_function_app/main'']]
   \<and> \<not> FileExists unvendored_ctx ([] @ vendored_setup unvendored_ctx sample_layer sample_fn)
         [fnFrameworkVendoredPath_of unvendored_ctx sample_fn]
   \<and> vendored_setup_succeeds unvendored_ctx sample_layer sample_fn []
   \<and> createMainVendored unvendored_ctx sample_layer sample_fn [] =
       deferred (ctx_call unvendored_ctx (EvRemoveAll ''/tmp/serverless_function_app1''))
         (createMainGoFile unvendored_ctx sample_fn
            (filepath_Join [appPath_of unvendored_ctx, ''main.go'']) functionsFrameworkVersion)
         ([] @ vendored_setup unvendored_ctx sample_layer sample_fn @
           [EvLogf found_excluding, EvWarnf vendored_warning,
            EvTempDir ''/tmp/serverless_function_app1'',
            EvExec fetch_cmd (fetch_opts unvendored_ctx ''/tmp/serverless_function_app1''),
            EvExec checkout_cmd (checkout_opts unvendored_ctx)])
   \<and> execs (new_events [] (createMainVendored unvendored_ctx sample_layer sample_fn [])) =
       [[''go'', ''get'', ''github.com/GoogleCloudPlatform/functions-framework-go/funcframework''],
        [''git'', ''checkout'', ''v1.1.0'']]"
proof -
  let ?ok = "\<lparr>Stdout = [], Stderr = []\<rparr>"
  let ?c = "''/tmp/serverless_function_app1''"
  have a1: "FileExists vendored_ctx ([] @ vendored_setup vendored_ctx sample_layer sample_fn)
     [fnFrameworkVendoredPath_of vendored_ctx sample_fn]"
    by (simp add: sample_defs)
  have a2: "vendored_setup_succeeds vendored_ctx sample_layer sample_fn []"
    by (simp add: sample_defs vendored_setup_succeeds_def)
  have a3: "ExecWithErr vendored_ctx
      ([] @ vendored_setup vendored_ctx sample_layer sample_fn @ [EvLogf found_including])
      (copy_cmd vendored_ctx sample_fn) [WithUserTimingAttribution] = ExecOk ?ok"
    by (simp add: sample_defs copy_cmd_def)
  have b1: "\<not> FileExists unvendored_ctx
      ([] @ vendored_setup unvendored_ctx sample_layer sample_fn)
      [fnFrameworkVendoredPath_of unvendored_ctx sample_fn]"
    by (simp add: sample_defs)
  have b2: "vendored_setup_succeeds unvendored_ctx sample_layer sample_fn []"
    by (simp add: sample_defs vendored_setup_succeeds_def)
  have b3: "TempDir unvendored_ctx
      ([] @ vendored_setup unvendored_ctx sample_layer sample_fn @
         [EvLogf found_excluding, EvWarnf vendored_warning]) [] appName = Inr ?c"
    by (simp add: sample_defs appName_def)
  have b4: "ExecWithErr unvendored_ctx
      ([] @ vendored_setup unvendored_ctx sample_layer sample_fn @
         [EvLogf found_excluding, EvWarnf vendored_warning, EvTempDir ?c])
      fetch_cmd (fetch_opts unvendored_ctx ?c) = ExecOk ?ok"
    by (simp add: sample_defs fetch_cmd_def)
  have b5: "ExecWithErr unvendored_ctx
      ([] @ vendored_setup unvendored_ctx sample_layer sample_fn @
         [EvLogf found_excluding, EvWarnf vendored_warning, EvTempDir ?c,
          EvExec fetch_cmd (fetch_opts unvendored_ctx ?c)])
      checkout_cmd (checkout_opts unvendored_ctx) = ExecOk ?ok"
    by (simp add: sample_defs checkout_cmd_def)
  have c1: "copy_cmd vendored_ctx sample_fn =
      [''cp'', ''-r'', ''/workspace/src/hello/vendor'',
       ''/workspace/src/serverless_function_app/main'']"
    by (simp add: sample_defs vendored_defs path_defs const_defs)
  have c2: "[fetch_cmd, checkout_cmd] =
      [[''go'', ''get'', ''github.com/GoogleCloudPlatform/functions-framework-go/funcframework''],
       [''git'', ''checkout'', ''v1.1.0'']]"
    by (simp add: vendored_defs const_defs)
  from createMainVendored_branches [where ctx = vendored_ctx and s = "[]" and l = sample_layer
      and fn = sample_fn and r = ?ok] a1 a2 a3
  have A: "createMainVendored vendored_ctx sample_layer sample_fn [] =
       createMainGoFile vendored_ctx sample_fn
         (filepath_Join [appPath_of vendored_ctx, ''main.go'']) ''v0.0.0''
         ([] @ vendored_setup vendored_ctx sample_layer sample_fn @
           [EvLogf found_including,
            EvExec (copy_cmd vendored_ctx sample_fn) [WithUserTimingAttribution]])"
    "execs (new_events [] (createMainVendored vendored_ctx sample_layer sample_fn [])) =
       [copy_cmd vendored_ctx sample_fn]"
    by blast+
  from createMainVendored_branches [where ctx = unvendored_ctx and s = "[]" and l = sample_layer
      and fn = sample_fn and cache = ?c and ?r0.0 = ?ok and ?r1.0 = ?ok] b1 b2 b3 b4 b5
  have B: "createMainVendored unvendored_ctx sample_layer sample_fn [] =
       deferred (ctx_call unvendored_ctx (EvRemoveAll ?c))
         (createMainGoFile unvendored_ctx sample_fn
            (filepath_Join [appPath_of unvendored_ctx, ''main.go'']) functionsFrameworkVersion)
         ([] @ vendored_setup unvendored_ctx sample_layer sample_fn @
           [EvLogf found_excluding, EvWarnf vendored_warning, EvTempDir ?c,
            EvExec fetch_cmd (fetch_opts unvendored_ctx ?c),
            EvExec checkout_cmd (checkout_opts unvendored_ctx)])"
    "execs (new_events [] (createMainVendored unvendored_ctx sample_layer sample_fn [])) =
       [fetch_cmd, checkout_cmd]"
    by blast+
  show ?thesis
    using a1 a2 b1 b2 A B c1 c2 by simp
qed

subsection \<open>The declared framework version\<close>

text \<open>
  C5: \<^const>\<open>frameworkSpecifiedVersion\<close> returns the trimmed output and no error when the
  query succeeds; the empty string and no error when the query fails with a result whose
  error output contains \<^verbatim>\<open>not a known dependency\<close>; and the empty string together with the
  error of the query on every other failure (no result, or an error output without that text).
\<close>

theorem frameworkSpecifiedVersion_cases:
  "(ExecWithErr ctx s version_cmd [WithWorkDir fnSource] = ExecOk res \<longrightarrow>
      frameworkSpecifiedVersion ctx fnSource s =
        (Ret (TrimSpace (Stdout res), None),
         s @ [EvExec version_cmd [WithWorkDir fnSource],
              EvLogf (''Found framework version '' @ TrimSpace (Stdout res))]))
   \<and> (ExecWithErr ctx s version_cmd [WithWorkDir fnSource] = ExecFailed (Some res) err
       \<and> Contains (Stderr res) ''not a known dependency'' \<longrightarrow>
      frameworkSpecifiedVersion ctx fnSource s =
        (Ret ([], None),
         s @ [EvExec version_cmd [WithWorkDir fnSource],
              EvLogf ''No framework version specified, using default'']))
   \<and> (ExecWithErr ctx s version_cmd [WithWorkDir fnSource] = ExecFailed ro err
       \<and> (case ro of None \<Rightarrow> True
           | Some res' \<Rightarrow> \<not> Contains (Stderr res') ''not a known dependency'') \<longrightarrow>
      frameworkSpecifiedVersion ctx fnSource s =
        (Ret ([], Some err), s @ [EvExec version_cmd [WithWorkDir fnSource]]))"
  by (cases ro)
     (simp_all add: frameworkSpecifiedVersion_def run_defs version_cmd_def Let_def)

theorem frameworkSpecifiedVersion_cases_witness:
  "ExecWithErr pinned_ctx [] version_cmd [WithWorkDir (Source sample_fn)] =
       ExecOk \<lparr>Stdout = ''v1.0.9'' @ [CHR 0x0A], Stderr = []\<rparr>
   \<and> fst (frameworkSpecifiedVersion pinned_ctx (Source sample_fn) []) = Ret (''v1.0.9'', None)
   \<and> ExecWithErr module_ctx [] version_cmd [WithWorkDir (Source sample_fn)] =
       ExecFailed (Some \<lparr>Stdout = [], Stderr = ''go: module x: not a known dependency''\<rparr>)
         (ToolError ''exit status 1'')
   \<and> Contains ''go: module x: not a known dependency'' ''not a known dependency''
   \<and> fst (frameworkSpecifiedVersion module_ctx (Source sample_fn) []) = Ret ([], None)
   \<and> ExecWithErr failing_ctx [] version_cmd [WithWorkDir (Source sample_fn)] =
       ExecFailed None (ToolError ''exit status 1'')
   \<and> fst (frameworkSpecifiedVersion failing_ctx (Source sample_fn) []) =
       Ret ([], Some (ToolError ''exit status 1''))"
proof -
  let ?out = "\<lparr>Stdout = ''v1.0.9'' @ [CHR 0x0A], Stderr = []\<rparr>"
  let ?err = "\<lparr>Stdout = [], Stderr = ''go: module x: not a known dependency''\<rparr>"
  have a: "ExecWithErr pinned_ctx [] version_cmd [WithWorkDir (Source sample_fn)] = ExecOk ?out"
    by (simp add: sample_defs version_cmd_def)
  have b: "ExecWithErr module_ctx [] version_cmd [WithWorkDir (Source sample_fn)] =
       ExecFailed (Some ?err) (ToolError ''exit status 1'')"
    by (simp add: sample_defs version_cmd_def)
  have b': "Contains (Stderr ?err) ''not a known dependency''"
    by simp
  have c: "ExecWithErr failing_ctx [] version_cmd [WithWorkDir (Source sample_fn)] =
       ExecFailed None (ToolError ''exit status 1'')"
    by (simp add: sample_defs)
  have t: "TrimSpace (''v1.0.9'' @ [CHR 0x0A]) = ''v1.0.9''"
    by (simp add: semver_defs)
  from frameworkSpecifiedVersion_cases [where ctx = pinned_ctx and s = "[]"
      and fnSource = "Source sample_fn" and res = ?out] a t
  have A: "fst (frameworkSpecifiedVersion pinned_ctx (Source sample_fn) []) = Ret (''v1.0.9'', None)"
    by simp
  from frameworkSpecifiedVersion_cases [where ctx = module_ctx and s = "[]"
      and fnSource = "Source sample_fn" and res = ?err and err = "ToolError ''exit status 1''"] b b'
  have B: "fst (frameworkSpecifiedVersion module_ctx (Source sample_fn) []) = Ret ([], None)"
    by simp
  from frameworkSpecifiedVersion_cases [where ctx = failing_ctx and s = "[]"
      and fnSource = "Source sample_fn" and ro = None and err = "ToolError ''exit status 1''"] c
  have C: "fst (frameworkSpecifiedVersion failing_ctx (Source sample_fn) []) =
       Ret ([], Some (ToolError ''exit status 1''))"
    by simp
  from a b b' c A B C show ?thesis by simp
qed

subsection \<open>Builds with a go.mod file\<close>

lemma Split_not_Nil: "Split s c \<noteq> []"
  by (induction s) (auto split: list.splits)

lemma createMainGoMod_queried:
  assumes "module_queried ctx fn fnMod s"
  shows "createMainGoMod ctx fn s =
    (if \<not> Contains (first_segment fnMod) ''.''
     then (Ret (Some (UserError (module_path_message @ fnMod))), s @ module_query_events fn)
     else createMainGoMod_rest ctx
            (fn\<lparr>Package :=
                  if FileExists ctx (s @ module_query_events fn) [ApplicationRoot ctx, Package fn]
                  then fnMod @ ''/'' @ Package fn else fnMod\<rparr>)
            fnMod (s @ module_query_events fn))"
proof -
  from assms obtain r0 r1 where
    r0: "ExecWithErr ctx s init_cmd [] = ExecOk r0" and
    r1: "ExecWithErr ctx (s @ [EvExec init_cmd []]) list_cmd [WithWorkDir (Source fn)] = ExecOk r1"
      and out: "Stdout r1 = fnMod"
    unfolding module_queried_def
    by (cases "ExecWithErr ctx s init_cmd []";
        cases "ExecWithErr ctx (s @ [EvExec init_cmd []]) list_cmd [WithWorkDir (Source fn)]")
       auto
  show ?thesis
    using r0 r1 out Split_not_Nil [of fnMod "CHR ''/''"]
    by (cases "Split fnMod CHR ''/''")
       (simp_all add: createMainGoMod_def run_defs init_cmd_def list_cmd_def first_segment_def
         module_query_events_def Let_def)
qed

text \<open>
  C2 (amended): if the first two commands of the module wiring succeed and the module path
  they report has no dot in its first slash-separated element, \<^const>\<open>createMainGoMod\<close> returns
  a user error naming that module path. By then it has started exactly two commands: the
  initialisation of the module of the application, which creates the go.mod file of the
  application, and the query for the module path. It has edited no requirement, fetched
  nothing and has not created the entry-point file.
\<close>

theorem createMainGoMod_rejects_undotted:
  assumes "module_queried ctx fn fnMod s" and "\<not> Contains (first_segment fnMod) ''.''"
  shows "createMainGoMod ctx fn s =
           (Ret (Some (UserError (module_path_message @ fnMod))), s @ module_query_events fn)"
  using assms(2) by (simp add: createMainGoMod_queried [OF assms(1)])

theorem createMainGoMod_rejects_undotted_witness:
  "module_queried undotted_ctx sample_fn ''foo/bar'' []
   \<and> \<not> Contains (first_segment ''foo/bar'') ''.''
   \<and> createMainGoMod undotted_ctx sample_fn [] =
       (Ret (Some (UserError (module_path_message @ ''foo/bar''))),
        [EvExec [''go'', ''mod'', ''init'', ''serverless_function_app''] [],
         EvExec [''go'', ''list'', ''-m'']
           [WithWorkDir ''/workspace/serverless_function_source_code'']])"
proof -
  have a: "module_queried undotted_ctx sample_fn ''foo/bar'' []"
    by (simp add: module_defs sample_defs const_defs)
  have b: "\<not> Contains (first_segment ''foo/bar'') ''.''"
    by (simp add: first_segment_def)
  have c: "[] @ module_query_events sample_fn =
      [EvExec [''go'', ''mod'', ''init'', ''serverless_function_app''] [],
       EvExec [''go'', ''list'', ''-m'']
         [WithWorkDir ''/workspace/serverless_function_source_code'']]"
    by (simp add: module_defs sample_defs const_defs)
  from createMainGoMod_rejects_undotted [OF a b] c a b show ?thesis by simp
qed

text \<open>
  For the module path \<^verbatim>\<open>foo/bar\<close> the user error is returned after a command that writes a
  file has been started: the initialisation of the module of the application.
\<close>

theorem createMainGoMod_undotted_counterexample:
  "fst (createMainGoMod undotted_ctx sample_fn []) =
     Ret (Some (UserError (module_path_message @ ''foo/bar'')))
   \<and> filter changes_files (new_events [] (createMainGoMod undotted_ctx sample_fn [])) =
       [EvExec [''go'', ''mod'', ''init'', ''serverless_function_app''] []]
   \<and> filter changes_files (new_events [] (createMainGoMod undotted_ctx sample_fn [])) \<noteq> []"
proof -
  have a: "module_queried undotted_ctx sample_fn ''foo/bar'' []"
    by (simp add: module_defs sample_defs const_defs)
  have b: "\<not> Contains (first_segment ''foo/bar'') ''.''"
    by (simp add: first_segment_def)
  have "createMainGoMod undotted_ctx sample_fn [] =
      (Ret (Some (UserError (module_path_message @ ''foo/bar''))),
       [] @ module_query_events sample_fn)"
    using b by (simp add: createMainGoMod_queried [OF a])
  then show ?thesis
    by (simp add: new_events_def module_defs const_defs)
qed

text \<open>
  C6: if the first two commands of the module wiring succeed and the module path has a dot in
  its first element, \<^const>\<open>createMainGoMod\<close> goes on with the package import path set to the
  module path followed by a slash and the package name when an entry with the name of the
  package exists at the application root, and to the module path alone otherwise.
\<close>

theorem createMainGoMod_import_path:
  assumes "module_queried ctx fn fnMod s" and "Contains (first_segment fnMod) ''.''"
  shows "(FileExists ctx (s @ module_query_events fn) [ApplicationRoot ctx, Package fn] \<longrightarrow>
            createMainGoMod ctx fn s =
              createMainGoMod_rest ctx (fn\<lparr>Package := fnMod @ ''/'' @ Package fn\<rparr>) fnMod
                (s @ module_query_events fn))
       \<and> (\<not> FileExists ctx (s @ module_query_events fn) [ApplicationRoot ctx, Package fn] \<longrightarrow>
            createMainGoMod ctx fn s =
              createMainGoMod_rest ctx (fn\<lparr>Package := fnMod\<rparr>) fnMod
                (s @ module_query_events fn))"
  using assms(2) by (simp add: createMainGoMod_queried [OF assms(1)])


text \<open>The module wiring in three sample worlds.\<close>

lemma module_run:
  "createMainGoMod module_ctx sample_fn [] =
    (Ret None,
     [EvExec [''go'', ''mod'', ''init'', ''serverless_function_app''] [],
      EvExec [''go'', ''list'', ''-m'']
        [WithWorkDir ''/workspace/serverless_function_source_code''],
      EvExec [''go'', ''mod'', ''edit'', ''-require'', ''example.com/fn@v0.0.0''] [],
      EvExec [''go'', ''mod'', ''edit'', ''-replace'',
              ''example.com/fn@v0.0.0=/workspace/serverless_function_source_code''] [],
      EvExec [''go'', ''list'', ''-m'', ''-f'', ''{{.Version}}'',
              ''github.com/GoogleCloudPlatform/functions-framework-go'']
        [WithWorkDir ''/workspace/serverless_function_source_code''],
      EvLogf ''No framework version specified, using default'',
      EvExec [''go'', ''get'', ''github.com/GoogleCloudPlatform/functions-framework-go@v1.1.0'']
        [WithUserAttribution],
      EvCreateFile ''/workspace/main.go'',
      EvTemplateExecute tmplV1_1 ''/workspace/main.go'' (sample_fn\<lparr>Package := ''example.com/fn''\<rparr>),
      EvClose ''/workspace/main.go''])"
  by (simp add: createMainGoMod_def createMainGoMod_rest_def frameworkSpecifiedVersion_def
      createMainGoFile_def run_defs sample_defs path_defs const_defs Let_def semver_defs GE_def
      Compare_def)

lemma package_dir_run:
  "createMainGoMod package_dir_ctx sample_fn [] =
    (Ret None,
     [EvExec [''go'', ''mod'', ''init'', ''serverless_function_app''] [],
      EvExec [''go'', ''list'', ''-m'']
        [WithWorkDir ''/workspace/serverless_function_source_code''],
      EvExec [''go'', ''mod'', ''edit'', ''-require'', ''example.com/fn@v0.0.0''] [],
      EvExec [''go'', ''mod'', ''edit'', ''-replace'',
              ''example.com/fn@v0.0.0=/workspace/serverless_function_source_code''] [],
      EvExec [''go'', ''list'', ''-m'', ''-f'', ''{{.Version}}'',
              ''github.com/GoogleCloudPlatform/functions-framework-go'']
        [WithWorkDir ''/workspace/serverless_function_source_code''],
      EvLogf ''No framework version specified, using default'',
      EvExec [''go'', ''get'', ''github.com/GoogleCloudPlatform/functions-framework-go@v1.1.0'']
        [WithUserAttribution],
      EvCreateFile ''/workspace/main.go'',
      EvTemplateExecute tmplV1_1 ''/workspace/main.go''
        (sample_fn\<lparr>Package := ''example.com/fn/hello''\<rparr>),
      EvClose ''/workspace/main.go''])"
  by (simp add: createMainGoMod_def createMainGoMod_rest_def frameworkSpecifiedVersion_def
      createMainGoFile_def run_defs sample_defs path_defs const_defs Let_def semver_defs GE_def
      Compare_def)

lemma pinned_run:
  "createMainGoMod pinned_ctx sample_fn [] =
    (Ret None,
     [EvExec [''go'', ''mod'', ''init'', ''serverless_function_app''] [],
      EvExec [''go'', ''list'', ''-m'']
        [WithWorkDir ''/workspace/serverless_function_source_code''],
      EvExec [''go'', ''mod'', ''edit'', ''-require'', ''example.com/fn@v0.0.0''] [],
      EvExec [''go'', ''mod'', ''edit'', ''-replace'',
              ''example.com/fn@v0.0.0=/workspace/serverless_function_source_code''] [],
      EvExec [''go'', ''list'', ''-m'', ''-f'', ''{{.Version}}'',
              ''github.com/GoogleCloudPlatform/functions-framework-go'']
        [WithWorkDir ''/workspace/serverless_function_source_code''],
      EvLogf ''Found framework version v1.0.9'',
      EvCreateFile ''/workspace/main.go'',
      EvTemplateExecute tmplV0 ''/workspace/main.go'' (sample_fn\<lparr>Package := ''example.com/fn''\<rparr>),
      EvClose ''/workspace/main.go''])"
  by (simp add: createMainGoMod_def createMainGoMod_rest_def frameworkSpecifiedVersion_def
      createMainGoFile_def run_defs sample_defs path_defs const_defs Let_def semver_defs GE_def
      Compare_def)

theorem createMainGoMod_import_path_witness:
  "module_queried package_dir_ctx sample_fn ''example.com/fn'' []
   \<and> Contains (first_segment ''example.com/fn'') ''.''
   \<and> FileExists package_dir_ctx ([] @ module_query_events sample_fn)
        [ApplicationRoot package_dir_ctx, Package sample_fn]
   \<and> createMainGoMod package_dir_ctx sample_fn [] =
        createMainGoMod_rest package_dir_ctx
          (sample_fn\<lparr>Package := ''example.com/fn'' @ ''/'' @ Package sample_fn\<rparr>)
          ''example.com/fn'' ([] @ module_query_events sample_fn)
   \<and> rendered (new_events [] (createMainGoMod package_dir_ctx sample_fn [])) =
        [(tmplV1_1, ''/workspace/main.go'', sample_fn\<lparr>Package := ''example.com/fn/hello''\<rparr>)]
   \<and> module_queried module_ctx sample_fn ''example.com/fn'' []
   \<and> \<not> FileExists module_ctx ([] @ module_query_events sample_fn)
        [ApplicationRoot module_ctx, Package sample_fn]
   \<and> createMainGoMod module_ctx sample_fn [] =
        createMainGoMod_rest module_ctx (sample_fn\<lparr>Package := ''example.com/fn''\<rparr>)
          ''example.com/fn'' ([] @ module_query_events sample_fn)
   \<and> rendered (new_events [] (createMainGoMod module_ctx sample_fn [])) =
        [(tmplV1_1, ''/workspace/main.go'', sample_fn\<lparr>Package := ''example.com/fn''\<rparr>)]"
proof -
  have a: "module_queried package_dir_ctx sample_fn ''example.com/fn'' []"
    by (simp add: module_defs sample_defs const_defs)
  have b: "Contains (first_segment ''example.com/fn'') ''.''"
    by (simp add: first_segment_def)
  have c: "FileExists package_dir_ctx ([] @ module_query_events sample_fn)
        [ApplicationRoot package_dir_ctx, Package sample_fn]"
    by (simp add: sample_defs)
  have d: "module_queried module_ctx sample_fn ''example.com/fn'' []"
    by (simp add: module_defs sample_defs const_defs)
  have e: "\<not> FileExists module_ctx ([] @ module_query_events sample_fn)
        [ApplicationRoot module_ctx, Package sample_fn]"
    by (simp add: sample_defs)
  have f: "rendered (new_events [] (createMainGoMod package_dir_ctx sample_fn [])) =
        [(tmplV1_1, ''/workspace/main.go'', sample_fn\<lparr>Package := ''example.com/fn/hello''\<rparr>)]"
    by (simp add: package_dir_run new_events_def)
  have g: "rendered (new_events [] (createMainGoMod module_ctx sample_fn [])) =
        [(tmplV1_1, ''/workspace/main.go'', sample_fn\<lparr>Package := ''example.com/fn''\<rparr>)]"
    by (simp add: module_run new_events_def)
  from createMainGoMod_import_path [OF a b] c
  have A: "createMainGoMod package_dir_ctx sample_fn [] =
        createMainGoMod_rest package_dir_ctx
          (sample_fn\<lparr>Package := ''example.com/fn'' @ ''/'' @ Package sample_fn\<rparr>)
          ''example.com/fn'' ([] @ module_query_events sample_fn)"
    by blast
  from createMainGoMod_import_path [OF d b] e
  have B: "createMainGoMod module_ctx sample_fn [] =
        createMainGoMod_rest module_ctx (sample_fn\<lparr>Package := ''example.com/fn''\<rparr>)
          ''example.com/fn'' ([] @ module_query_events sample_fn)"
    by blast
  from a b c d e f g A B show ?thesis by blast
qed

subsection \<open>The framework version handed to the renderer\<close>

lemma frameworkSpecifiedVersion_events:
  "\<exists>logs. snd (frameworkSpecifiedVersion ctx src s) =
      s @ EvExec version_cmd [WithWorkDir src] # logs \<and> execs logs = []"
proof (cases "ExecWithErr ctx s version_cmd [WithWorkDir src]")
  case (ExecOk res)
  then have "snd (frameworkSpecifiedVersion ctx src s) =
      s @ EvExec version_cmd [WithWorkDir src] #
        [EvLogf (''Found framework version '' @ TrimSpace (Stdout res))]"
    by (simp add: frameworkSpecifiedVersion_def run_defs version_cmd_def Let_def)
  moreover have "execs [EvLogf (''Found framework version '' @ TrimSpace (Stdout res))] = []"
    by simp
  ultimately show ?thesis by blast
next
  case (ExecFailed ro err)
  show ?thesis
  proof (cases "case ro of None \<Rightarrow> False
      | Some res' \<Rightarrow> Contains (Stderr res') ''not a known dependency''")
    case True
    with ExecFailed have "snd (frameworkSpecifiedVersion ctx src s) =
        s @ EvExec version_cmd [WithWorkDir src] #
          [EvLogf ''No framework version specified, using default'']"
      by (simp add: frameworkSpecifiedVersion_def run_defs version_cmd_def)
    moreover have "execs [EvLogf ''No framework version specified, using default''] = []"
      by simp
    ultimately show ?thesis by blast
  next
    case False
    with ExecFailed have "snd (frameworkSpecifiedVersion ctx src s) =
        s @ EvExec version_cmd [WithWorkDir src] # []"
      by (simp add: frameworkSpecifiedVersion_def run_defs version_cmd_def)
    then show ?thesis by fastforce
  qed
qed

lemma edits_succeed_results:
  assumes "edits_succeed ctx fn fnMod s"
  shows "\<exists>r2 r3. ExecWithErr ctx s (require_cmd fnMod) [] = ExecOk r2
    \<and> ExecWithErr ctx (s @ [EvExec (require_cmd fnMod) []]) (replace_cmd fnMod fn) [] = ExecOk r3"
  using assms unfolding edits_succeed_def
  by (cases "ExecWithErr ctx s (require_cmd fnMod) []";
      cases "ExecWithErr ctx (s @ [EvExec (require_cmd fnMod) []]) (replace_cmd fnMod fn) []")
     auto

lemma createMainGoMod_rest_unspecified:
  assumes "edits_succeed ctx fn fnMod s"
      and "frameworkSpecifiedVersion ctx (Source fn) (s @ edit_events fn fnMod)
             = (Ret ([], None), s3)"
      and "ExecWithErr ctx s3 get_cmd [WithUserAttribution] = ExecOk r"
  shows "createMainGoMod_rest ctx fn fnMod s =
           createMainGoFile ctx fn (filepath_Join [ApplicationRoot ctx, ''main.go''])
             functionsFrameworkVersion (s3 @ [EvExec get_cmd [WithUserAttribution]])"
proof -
  from edits_succeed_results [OF assms(1)] obtain r2 r3 where
    "ExecWithErr ctx s (require_cmd fnMod) [] = ExecOk r2"
    "ExecWithErr ctx (s @ [EvExec (require_cmd fnMod) []]) (replace_cmd fnMod fn) [] = ExecOk r3"
    by blast
  then show ?thesis
    using assms(2,3)
    by (simp add: createMainGoMod_rest_def andThen_def ret_def ctx_Exec_def ctx_ExecWithErr_def
        require_cmd_def replace_cmd_def get_cmd_def edit_events_def)
qed

lemma createMainGoMod_rest_declared:
  assumes "edits_succeed ctx fn fnMod s"
      and "frameworkSpecifiedVersion ctx (Source fn) (s @ edit_events fn fnMod)
             = (Ret (v, None), s3)"
      and "v \<noteq> []"
  shows "createMainGoMod_rest ctx fn fnMod s =
           createMainGoFile ctx fn (filepath_Join [ApplicationRoot ctx, ''main.go'']) v s3"
proof -
  from edits_succeed_results [OF assms(1)] obtain r2 r3 where
    "ExecWithErr ctx s (require_cmd fnMod) [] = ExecOk r2"
    "ExecWithErr ctx (s @ [EvExec (require_cmd fnMod) []]) (replace_cmd fnMod fn) [] = ExecOk r3"
    by blast
  then show ?thesis
    using assms(2,3)
    by (simp add: createMainGoMod_rest_def andThen_def ret_def ctx_Exec_def ctx_ExecWithErr_def
        require_cmd_def replace_cmd_def edit_events_def)
qed


text \<open>
  C7: in the module-based build, once the module path is accepted and the two edits of the
  go.mod file have succeeded: if \<^const>\<open>frameworkSpecifiedVersion\<close> returns the empty version
  and no error, the framework is added at the pinned default version by one more command, and
  when that command succeeds the build continues as the renderer called with the pinned
  default version; if it returns a non-empty version and no error, the build continues as the
  renderer called with that version, and the command that adds the framework is never started.
\<close>

theorem createMainGoMod_framework_version:
  assumes "module_queried ctx fn fnMod s" and "Contains (first_segment fnMod) ''.''"
      and "edits_succeed ctx fn fnMod (s @ module_query_events fn)"
  shows "(frameworkSpecifiedVersion ctx (Source fn)
            (s @ module_query_events fn @ edit_events fn fnMod) = (Ret ([], None), s3)
          \<and> ExecWithErr ctx s3 get_cmd [WithUserAttribution] = ExecOk r \<longrightarrow>
            createMainGoMod ctx fn s =
              createMainGoFile ctx (fn\<lparr>Package := import_path ctx fn fnMod s\<rparr>)
                (filepath_Join [ApplicationRoot ctx, ''main.go'']) functionsFrameworkVersion
                (s3 @ [EvExec get_cmd [WithUserAttribution]])
            \<and> execs (new_events s (createMainGoMod ctx fn s)) =
                [init_cmd, list_cmd, require_cmd fnMod, replace_cmd fnMod fn, version_cmd, get_cmd])
       \<and> (frameworkSpecifiedVersion ctx (Source fn)
            (s @ module_query_events fn @ edit_events fn fnMod) = (Ret (v, None), s3)
          \<and> v \<noteq> [] \<longrightarrow>
            createMainGoMod ctx fn s =
              createMainGoFile ctx (fn\<lparr>Package := import_path ctx fn fnMod s\<rparr>)
                (filepath_Join [ApplicationRoot ctx, ''main.go'']) v s3
            \<and> execs (new_events s (createMainGoMod ctx fn s)) =
                [init_cmd, list_cmd, require_cmd fnMod, replace_cmd fnMod fn, version_cmd]
            \<and> get_cmd \<notin> set (execs (new_events s (createMainGoMod ctx fn s))))"
proof -
  let ?fn = "fn\<lparr>Package := import_path ctx fn fnMod s\<rparr>"
  let ?s1 = "s @ module_query_events fn"
  let ?s2 = "s @ module_query_events fn @ edit_events fn fnMod"
  let ?m = "filepath_Join [ApplicationRoot ctx, ''main.go'']"
  have rest: "createMainGoMod ctx fn s = createMainGoMod_rest ctx ?fn fnMod ?s1"
    using assms(2) by (simp add: createMainGoMod_queried [OF assms(1)] import_path_def)
  have edits: "edits_succeed ctx ?fn fnMod ?s1"
    using assms(3) by (simp add: edits_succeed_def replace_cmd_def)
  have ev: "edit_events ?fn fnMod = edit_events fn fnMod"
    by (simp add: edit_events_def replace_cmd_def)
  from frameworkSpecifiedVersion_events [of ctx "Source fn" ?s2] obtain logs where
    logs: "snd (frameworkSpecifiedVersion ctx (Source fn) ?s2) =
        ?s2 @ EvExec version_cmd [WithWorkDir (Source fn)] # logs" "execs logs = []"
    by blast
  have pre: "execs (module_query_events fn @ edit_events fn fnMod) =
      [init_cmd, list_cmd, require_cmd fnMod, replace_cmd fnMod fn]"
    by (simp add: module_query_events_def edit_events_def)
  have no_get: "get_cmd \<notin> set [init_cmd, list_cmd, require_cmd fnMod, replace_cmd fnMod fn,
      version_cmd]"
    by (simp add: get_cmd_def init_cmd_def list_cmd_def require_cmd_def replace_cmd_def
        version_cmd_def)
  show ?thesis
  proof (intro conjI impI)
    assume h: "frameworkSpecifiedVersion ctx (Source fn) ?s2 = (Ret ([], None), s3)
          \<and> ExecWithErr ctx s3 get_cmd [WithUserAttribution] = ExecOk r"
    then have s3: "s3 = ?s2 @ EvExec version_cmd [WithWorkDir (Source fn)] # logs"
      using logs(1) by simp
    from h have "createMainGoMod_rest ctx ?fn fnMod ?s1 =
        createMainGoFile ctx ?fn ?m functionsFrameworkVersion
          (s3 @ [EvExec get_cmd [WithUserAttribution]])"
      using createMainGoMod_rest_unspecified [OF edits, of s3 r] by (simp add: ev)
    with rest show eq: "createMainGoMod ctx fn s =
        createMainGoFile ctx ?fn ?m functionsFrameworkVersion
          (s3 @ [EvExec get_cmd [WithUserAttribution]])"
      by simp
    from createMainGoFile_no_execs [of ctx ?fn ?m functionsFrameworkVersion
        "s3 @ [EvExec get_cmd [WithUserAttribution]]"]
    obtain new where
      "snd (createMainGoFile ctx ?fn ?m functionsFrameworkVersion
              (s3 @ [EvExec get_cmd [WithUserAttribution]])) =
         (s3 @ [EvExec get_cmd [WithUserAttribution]]) @ new" "execs new = []"
      by blast
    then show "execs (new_events s (createMainGoMod ctx fn s)) =
        [init_cmd, list_cmd, require_cmd fnMod, replace_cmd fnMod fn, version_cmd, get_cmd]"
      using logs(2) pre
      by (simp add: eq s3 new_events_def execs_append)
  next
    assume h: "frameworkSpecifiedVersion ctx (Source fn) ?s2 = (Ret (v, None), s3) \<and> v \<noteq> []"
    then have s3: "s3 = ?s2 @ EvExec version_cmd [WithWorkDir (Source fn)] # logs"
      using logs(1) by simp
    from h have "createMainGoMod_rest ctx ?fn fnMod ?s1 = createMainGoFile ctx ?fn ?m v s3"
      using createMainGoMod_rest_declared [OF edits, of v s3] by (simp add: ev)
    with rest show eq: "createMainGoMod ctx fn s = createMainGoFile ctx ?fn ?m v s3"
      by simp
    from createMainGoFile_no_execs [of ctx ?fn ?m v s3]
    obtain new where
      "snd (createMainGoFile ctx ?fn ?m v s3) = s3 @ new" "execs new = []"
      by blast
    then show ex: "execs (new_events s (createMainGoMod ctx fn s)) =
        [init_cmd, list_cmd, require_cmd fnMod, replace_cmd fnMod fn, version_cmd]"
      using logs(2) pre
      by (simp add: eq s3 new_events_def execs_append)
    show "get_cmd \<notin> set (execs (new_events s (createMainGoMod ctx fn s)))"
      unfolding ex by (rule no_get)
  qed
qed


theorem createMainGoMod_framework_version_witness:
  "module_queried module_ctx sample_fn ''example.com/fn'' []
   \<and> Contains (first_segment ''example.com/fn'') ''.''
   \<and> edits_succeed module_ctx sample_fn ''example.com/fn'' ([] @ module_query_events sample_fn)
   \<and> fst (frameworkSpecifiedVersion module_ctx (Source sample_fn)
        ([] @ module_query_events sample_fn @ edit_events sample_fn ''example.com/fn''))
       = Ret ([], None)
   \<and> execs (new_events [] (createMainGoMod module_ctx sample_fn [])) =
       [init_cmd, list_cmd, require_cmd ''example.com/fn'',
        replace_cmd ''example.com/fn'' sample_fn, version_cmd, get_cmd]
   \<and> rendered (new_events [] (createMainGoMod module_ctx sample_fn [])) =
       [(tmplV1_1, ''/workspace/main.go'', sample_fn\<lparr>Package := ''example.com/fn''\<rparr>)]
   \<and> module_queried pinned_ctx sample_fn ''example.com/fn'' []
   \<and> edits_succeed pinned_ctx sample_fn ''example.com/fn'' ([] @ module_query_events sample_fn)
   \<and> fst (frameworkSpecifiedVersion pinned_ctx (Source sample_fn)
        ([] @ module_query_events sample_fn @ edit_events sample_fn ''example.com/fn''))
       = Ret (''v1.0.9'', None)
   \<and> execs (new_events [] (createMainGoMod pinned_ctx sample_fn [])) =
       [init_cmd, list_cmd, require_cmd ''example.com/fn'',
        replace_cmd ''example.com/fn'' sample_fn, version_cmd]
   \<and> get_cmd \<notin> set (execs (new_events [] (createMainGoMod pinned_ctx sample_fn [])))
   \<and> rendered (new_events [] (createMainGoMod pinned_ctx sample_fn [])) =
       [(tmplV0, ''/workspace/main.go'', sample_fn\<lparr>Package := ''example.com/fn''\<rparr>)]"
proof -
  let ?s2 = "[] @ module_query_events sample_fn @ edit_events sample_fn ''example.com/fn''"
  let ?q = "EvExec version_cmd [WithWorkDir (Source sample_fn)]"
  let ?ok = "\<lparr>Stdout = [], Stderr = []\<rparr>"
  have d: "Contains (first_segment ''example.com/fn'') ''.''"
    by (simp add: first_segment_def)
  have a1: "module_queried module_ctx sample_fn ''example.com/fn'' []"
    by (simp add: module_defs sample_defs const_defs)
  have a2: "edits_succeed module_ctx sample_fn ''example.com/fn''
      ([] @ module_query_events sample_fn)"
    by (simp add: module_defs sample_defs const_defs)
  have a3: "frameworkSpecifiedVersion module_ctx (Source sample_fn) ?s2 =
      (Ret ([], None),
       ?s2 @ [?q, EvLogf ''No framework version specified, using default''])"
    by (simp add: frameworkSpecifiedVersion_def run_defs module_defs sample_defs const_defs)
  have a4: "ExecWithErr module_ctx
      (?s2 @ [?q, EvLogf ''No framework version specified, using default''])
      get_cmd [WithUserAttribution] = ExecOk ?ok"
    by (simp add: module_defs sample_defs const_defs)
  have b1: "module_queried pinned_ctx sample_fn ''example.com/fn'' []"
    by (simp add: module_defs sample_defs const_defs)
  have b2: "edits_succeed pinned_ctx sample_fn ''example.com/fn''
      ([] @ module_query_events sample_fn)"
    by (simp add: module_defs sample_defs const_defs)
  have b3: "frameworkSpecifiedVersion pinned_ctx (Source sample_fn) ?s2 =
      (Ret (''v1.0.9'', None), ?s2 @ [?q, EvLogf ''Found framework version v1.0.9''])"
    by (simp add: frameworkSpecifiedVersion_def run_defs module_defs sample_defs const_defs
        semver_defs Let_def)
  have b4: "''v1.0.9'' \<noteq> []"
    by simp
  from createMainGoMod_framework_version [OF a1 d a2,
      where ?s3.0 = "?s2 @ [?q, EvLogf ''No framework version specified, using default'']"
        and r = ?ok] a3 a4
  have A: "execs (new_events [] (createMainGoMod module_ctx sample_fn [])) =
       [init_cmd, list_cmd, require_cmd ''example.com/fn'',
        replace_cmd ''example.com/fn'' sample_fn, version_cmd, get_cmd]"
    by blast
  from createMainGoMod_framework_version [OF b1 d b2,
      where ?s3.0 = "?s2 @ [?q, EvLogf ''Found framework version v1.0.9'']"
        and v = "''v1.0.9''"] b3 b4
  have B: "execs (new_events [] (createMainGoMod pinned_ctx sample_fn [])) =
       [init_cmd, list_cmd, require_cmd ''example.com/fn'',
        replace_cmd ''example.com/fn'' sample_fn, version_cmd]"
    "get_cmd \<notin> set (execs (new_events [] (createMainGoMod pinned_ctx sample_fn [])))"
    by blast+
  have C: "rendered (new_events [] (createMainGoMod module_ctx sample_fn [])) =
       [(tmplV1_1, ''/workspace/main.go'', sample_fn\<lparr>Package := ''example.com/fn''\<rparr>)]"
    by (simp add: module_run new_events_def)
  have D: "rendered (new_events [] (createMainGoMod pinned_ctx sample_fn [])) =
       [(tmplV0, ''/workspace/main.go'', sample_fn\<lparr>Package := ''example.com/fn''\<rparr>)]"
    by (simp add: pinned_run new_events_def)
  from a3 have a3': "fst (frameworkSpecifiedVersion module_ctx (Source sample_fn) ?s2)
       = Ret ([], None)" by simp
  from b3 have b3': "fst (frameworkSpecifiedVersion pinned_ctx (Source sample_fn) ?s2)
       = Ret (''v1.0.9'', None)" by simp
  from d a1 a2 a3' b1 b2 b3' A B C D show ?thesis by blast
qed

subsection \<open>The choice of the build\<close>

lemma buildFn_relocated:
  assumes "buildFn_relocate ctx s = (Ret (l, fn), s1)"
  shows "buildFn ctx s = buildFn_strategy ctx l fn s1"
  using assms by (simp add: buildFn_def andThen_def)

text \<open>
  C1: once the function source has been moved, \<^const>\<open>buildFn\<close> decides as follows. Without a
  go.mod file it returns a user error if the toolchain needs one, and runs the vendored build
  otherwise. With a go.mod file whose owner-write bit is clear it returns a user error, and
  with a go.mod file whose owner-write bit is set it runs the module-based build.
\<close>

theorem buildFn_strategy_table:
  assumes "buildFn_relocate ctx s = (Ret (l, fn), s1)"
  shows "(\<not> FileExists ctx s1 [filepath_Join [Source fn, ''go.mod'']]
          \<and> \<not> SupportsNoGoMod ctx s1 \<longrightarrow>
            buildFn ctx s = (Ret (Some (UserError ''function build requires go.mod file'')), s1))
       \<and> (\<not> FileExists ctx s1 [filepath_Join [Source fn, ''go.mod'']]
          \<and> SupportsNoGoMod ctx s1 \<longrightarrow>
            buildFn ctx s = andThen (createMainVendored ctx l fn) (register_web_process ctx) s1)
       \<and> (FileExists ctx s1 [filepath_Join [Source fn, ''go.mod'']]
          \<and> Stat ctx s1 (filepath_Join [Source fn, ''go.mod'']) = Inr info
          \<and> Perm (Mode info) AND 0x80 = 0 \<longrightarrow>
            buildFn ctx s = (Ret (Some (UserError ''go.mod exists but is not writable'')), s1))
       \<and> (FileExists ctx s1 [filepath_Join [Source fn, ''go.mod'']]
          \<and> Stat ctx s1 (filepath_Join [Source fn, ''go.mod'']) = Inr info
          \<and> Perm (Mode info) AND 0x80 \<noteq> 0 \<longrightarrow>
            buildFn ctx s = andThen (createMainGoMod ctx fn) (register_web_process ctx) s1)"
  by (simp add: buildFn_relocated [OF assms] buildFn_strategy_def Let_def andThen_def ret_def
      ctx_FileExists_def golang_SupportsNoGoMod_def os_Stat_def)

lemma relocate_run:
  "buildFn_relocate (sample_ctx (sample_run ''example.com/fn'') present supported status) [] =
     (Ret (sample_layer, sample_fn), relocated)"
  by (simp add: buildFn_relocate_def extractPackageNameInDir_def run_defs sample_defs path_defs
      const_defs Let_def)

lemma go_mod_path: "filepath_Join [Source sample_fn, ''go.mod''] =
    ''/workspace/serverless_function_source_code/go.mod''"
  by (simp add: sample_defs path_defs)

theorem buildFn_strategy_table_witness:
  "buildFn_relocate quiet_ctx [] = (Ret (sample_layer, sample_fn), relocated)
   \<and> \<not> FileExists quiet_ctx relocated [filepath_Join [Source sample_fn, ''go.mod'']]
   \<and> \<not> SupportsNoGoMod quiet_ctx relocated
   \<and> buildFn quiet_ctx [] =
       (Ret (Some (UserError ''function build requires go.mod file'')), relocated)
   \<and> buildFn_relocate unvendored_ctx [] = (Ret (sample_layer, sample_fn), relocated)
   \<and> \<not> FileExists unvendored_ctx relocated [filepath_Join [Source sample_fn, ''go.mod'']]
   \<and> SupportsNoGoMod unvendored_ctx relocated
   \<and> buildFn unvendored_ctx [] =
       andThen (createMainVendored unvendored_ctx sample_layer sample_fn)
         (register_web_process unvendored_ctx) relocated
   \<and> buildFn_relocate read_only_ctx [] = (Ret (sample_layer, sample_fn), relocated)
   \<and> FileExists read_only_ctx relocated [filepath_Join [Source sample_fn, ''go.mod'']]
   \<and> Stat read_only_ctx relocated (filepath_Join [Source sample_fn, ''go.mod''])
       = Inr \<lparr>Mode = 0x124\<rparr>
   \<and> Perm (Mode \<lparr>Mode = 0x124\<rparr>) AND 0x80 = 0
   \<and> buildFn read_only_ctx [] =
       (Ret (Some (UserError ''go.mod exists but is not writable'')), relocated)
   \<and> buildFn_relocate module_ctx [] = (Ret (sample_layer, sample_fn), relocated)
   \<and> FileExists module_ctx relocated [filepath_Join [Source sample_fn, ''go.mod'']]
   \<and> Stat module_ctx relocated (filepath_Join [Source sample_fn, ''go.mod''])
       = Inr \<lparr>Mode = 0x1A4\<rparr>
   \<and> Perm (Mode \<lparr>Mode = 0x1A4\<rparr>) AND 0x80 \<noteq> 0
   \<and> buildFn module_ctx [] =
       andThen (createMainGoMod module_ctx sample_fn) (register_web_process module_ctx) relocated"
proof -
  have q: "buildFn_relocate quiet_ctx [] = (Ret (sample_layer, sample_fn), relocated)"
    unfolding quiet_ctx_def by (rule relocate_run)
  have u: "buildFn_relocate unvendored_ctx [] = (Ret (sample_layer, sample_fn), relocated)"
    unfolding unvendored_ctx_def by (rule relocate_run)
  have r: "buildFn_relocate read_only_ctx [] = (Ret (sample_layer, sample_fn), relocated)"
    unfolding read_only_ctx_def by (rule relocate_run)
  have m: "buildFn_relocate module_ctx [] = (Ret (sample_layer, sample_fn), relocated)"
    unfolding module_ctx_def by (rule relocate_run)
  have q1: "\<not> FileExists quiet_ctx relocated [filepath_Join [Source sample_fn, ''go.mod'']]"
    "\<not> SupportsNoGoMod quiet_ctx relocated"
    by (simp_all add: quiet_ctx_def sample_ctx_def no_files_def)
  have u1: "\<not> FileExists unvendored_ctx relocated [filepath_Join [Source sample_fn, ''go.mod'']]"
    "SupportsNoGoMod unvendored_ctx relocated"
    by (simp_all add: unvendored_ctx_def sample_ctx_def no_files_def)
  have r1: "FileExists read_only_ctx relocated [filepath_Join [Source sample_fn, ''go.mod'']]"
    "Stat read_only_ctx relocated (filepath_Join [Source sample_fn, ''go.mod''])
       = Inr \<lparr>Mode = 0x124\<rparr>"
    by (simp_all add: go_mod_path read_only_ctx_def sample_ctx_def only_go_mod_def
        stat_read_only_def)
  have r2: "Perm (Mode \<lparr>Mode = 0x124\<rparr>) AND 0x80 = 0"
    by (simp add: Perm_def)
  have m1: "FileExists module_ctx relocated [filepath_Join [Source sample_fn, ''go.mod'']]"
    "Stat module_ctx relocated (filepath_Join [Source sample_fn, ''go.mod''])
       = Inr \<lparr>Mode = 0x1A4\<rparr>"
    by (simp_all add: go_mod_path module_ctx_def sample_ctx_def only_go_mod_def
        stat_writable_def)
  have m2: "Perm (Mode \<lparr>Mode = 0x1A4\<rparr>) AND 0x80 \<noteq> 0"
    by (simp add: Perm_def)
  from buildFn_strategy_table [OF q] q1
  have Q: "buildFn quiet_ctx [] =
       (Ret (Some (UserError ''function build requires go.mod file'')), relocated)"
    by blast
  from buildFn_strategy_table [OF u] u1
  have U: "buildFn unvendored_ctx [] =
       andThen (createMainVendored unvendored_ctx sample_layer sample_fn)
         (register_web_process unvendored_ctx) relocated"
    by blast
  from buildFn_strategy_table [OF r, where info = "\<lparr>Mode = 0x124\<rparr>"] r1 r2
  have R: "buildFn read_only_ctx [] =
       (Ret (Some (UserError ''go.mod exists but is not writable'')), relocated)"
    by blast
  from buildFn_strategy_table [OF m, where info = "\<lparr>Mode = 0x1A4\<rparr>"] m1 m2
  have M: "buildFn module_ctx [] =
       andThen (createMainGoMod module_ctx sample_fn) (register_web_process module_ctx) relocated"
    by blast
  from q u r m q1 u1 r1 r2 m1 m2 Q U R M show ?thesis by blast
qed

subsection \<open>Errors a build cannot return\<close>

lemma never_ret_None: "never_returns e (ret None)"
  by (simp add: never_returns_def ret_def)

lemma never_ret_Some: "e' \<noteq> e \<Longrightarrow> never_returns e (ret (Some e'))"
  by (simp add: never_returns_def ret_def)

lemma never_andThen:
  assumes "\<And>a. never_returns e (f a)"
  shows "never_returns e (andThen m f)"
  unfolding never_returns_def
proof
  fix s
  show "fst (andThen m f s) \<noteq> Ret (Some e)"
  proof (cases "m s")
    case (Pair r s')
    then show ?thesis
      using assms by (cases r) (simp_all add: andThen_def never_returns_def)
  qed
qed

lemma never_deferred:
  assumes "never_returns e body"
  shows "never_returns e (deferred d body)"
  unfolding never_returns_def
proof
  fix s
  show "fst (deferred d body s) \<noteq> Ret (Some e)"
  proof (cases "body s")
    case (Pair r s')
    with assms have r: "r \<noteq> Ret (Some e)"
      unfolding never_returns_def by (metis fst_conv)
    show ?thesis
    proof (cases "d s'")
      case inner: (Pair q s'')
      then show ?thesis
        using Pair r by (cases q) (simp_all add: deferred_def)
    qed
  qed
qed

lemma never_if: "never_returns e a \<Longrightarrow> never_returns e b \<Longrightarrow> never_returns e (if c then a else b)"
  by simp

lemma never_createMainGoFile: "never_returns (UserError msg) (createMainGoFile ctx fn main version)"
  unfolding createMainGoFile_def Let_def
  by ((rule never_andThen | rule never_deferred | rule never_ret_None | rule never_ret_Some
       | intro conjI impI allI | simp split: sum.splits option.splits)+)

lemma never_createMainGoMod:
  "never_returns (UserError ''go.mod exists but is not writable'') (createMainGoMod ctx fn)"
  unfolding createMainGoMod_def createMainGoMod_rest_def Let_def
  by ((rule never_andThen | rule never_createMainGoFile | rule never_ret_None
       | rule never_ret_Some | rule never_if
       | intro conjI impI allI
       | simp add: module_path_message_def split: option.splits prod.splits)+)

lemma never_createMainVendored:
  "never_returns (UserError msg) (createMainVendored ctx l fn)"
  unfolding createMainVendored_def Let_def
  by ((rule never_andThen | rule never_deferred | rule never_createMainGoFile | rule never_if)+)

text \<open>Registering the web process passes on the error it is given, and adds none.\<close>

lemma never_registered:
  assumes "never_returns e m"
  shows "never_returns e (andThen m (register_web_process ctx))"
  unfolding never_returns_def
proof
  fix s
  show "fst (andThen m (register_web_process ctx) s) \<noteq> Ret (Some e)"
  proof (cases "m s")
    case (Pair r s')
    with assms have r: "r \<noteq> Ret (Some e)"
      unfolding never_returns_def by (metis fst_conv)
    show ?thesis
    proof (cases r)
      case (Exit x)
      with Pair show ?thesis by (simp add: andThen_def)
    next
      case (Ret a)
      show ?thesis
      proof (cases a)
        case None
        with Pair Ret show ?thesis
          by (simp add: andThen_def register_web_process_def ctx_call_def ret_def
              split: option.splits)
      next
        case (Some e')
        with Pair Ret r show ?thesis
          by (simp add: andThen_def register_web_process_def ret_def)
      qed
    qed
  qed
qed

text \<open>
  C10: once the function source has been moved and the go.mod file exists, \<^const>\<open>buildFn\<close>
  returns the user error about a go.mod that is not writable exactly when \<^verbatim>\<open>os.Stat\<close> of the
  file succeeds and the owner-write bit of its permissions is clear. When \<^verbatim>\<open>os.Stat\<close> fails,
  the build goes on with the module-based build. Without a go.mod file that error is never
  returned.
\<close>

theorem not_writable_failure_iff:
  assumes "buildFn_relocate ctx s = (Ret (l, fn), s1)"
  shows "(FileExists ctx s1 [filepath_Join [Source fn, ''go.mod'']] \<longrightarrow>
            (fst (buildFn ctx s) = Ret (Some (UserError ''go.mod exists but is not writable'')))
            = (\<exists>info. Stat ctx s1 (filepath_Join [Source fn, ''go.mod'']) = Inr info
                 \<and> Perm (Mode info) AND 0x80 = 0))
       \<and> (FileExists ctx s1 [filepath_Join [Source fn, ''go.mod'']]
          \<and> (\<exists>err. Stat ctx s1 (filepath_Join [Source fn, ''go.mod'']) = Inl err) \<longrightarrow>
            buildFn ctx s = andThen (createMainGoMod ctx fn) (register_web_process ctx) s1)
       \<and> (\<not> FileExists ctx s1 [filepath_Join [Source fn, ''go.mod'']] \<longrightarrow>
            fst (buildFn ctx s) \<noteq> Ret (Some (UserError ''go.mod exists but is not writable'')))"
proof -
  let ?goMod = "filepath_Join [Source fn, ''go.mod'']"
  let ?nw = "UserError ''go.mod exists but is not writable''"
  let ?ro = "\<exists>info. Stat ctx s1 ?goMod = Inr info \<and> Perm (Mode info) AND 0x80 = 0"
  note b = buildFn_relocated [OF assms]
  have module: "fst (andThen (createMainGoMod ctx fn) (register_web_process ctx) s1) \<noteq> Ret (Some ?nw)"
    using never_registered [OF never_createMainGoMod] unfolding never_returns_def by blast
  have vendored: "fst (andThen (createMainVendored ctx l fn) (register_web_process ctx) s1)
      \<noteq> Ret (Some ?nw)"
    using never_registered [OF never_createMainVendored] unfolding never_returns_def by blast
  have 1: "(fst (buildFn ctx s) = Ret (Some ?nw)) = ?ro" if ex: "FileExists ctx s1 [?goMod]"
  proof (cases ?ro)
    case True
    then show ?thesis
      using ex by (auto simp add: b buildFn_strategy_def Let_def andThen_def ret_def
          ctx_FileExists_def os_Stat_def)
  next
    case False
    then have "buildFn ctx s = andThen (createMainGoMod ctx fn) (register_web_process ctx) s1"
      using ex
      by (cases "Stat ctx s1 ?goMod")
         (simp_all add: b buildFn_strategy_def Let_def andThen_def ret_def
          ctx_FileExists_def os_Stat_def)
    with module False show ?thesis by simp
  qed
  have 2: "buildFn ctx s = andThen (createMainGoMod ctx fn) (register_web_process ctx) s1"
    if "FileExists ctx s1 [?goMod] \<and> (\<exists>err. Stat ctx s1 ?goMod = Inl err)"
    using that
    by (auto simp add: b buildFn_strategy_def Let_def andThen_def ret_def
          ctx_FileExists_def os_Stat_def)
  have 3: "fst (buildFn ctx s) \<noteq> Ret (Some ?nw)" if nex: "\<not> FileExists ctx s1 [?goMod]"
  proof (cases "SupportsNoGoMod ctx s1")
    case True
    then have "buildFn ctx s = andThen (createMainVendored ctx l fn) (register_web_process ctx) s1"
      using nex
      by (simp add: b buildFn_strategy_def Let_def andThen_def ret_def
          ctx_FileExists_def golang_SupportsNoGoMod_def)
    with vendored show ?thesis by simp
  next
    case False
    then show ?thesis
      using nex
      by (simp add: b buildFn_strategy_def Let_def andThen_def ret_def
          ctx_FileExists_def golang_SupportsNoGoMod_def)
  qed
  from 1 2 3 show ?thesis by blast
qed


text \<open>The whole build where the go.mod file exists and cannot be examined.\<close>

lemma stat_failure_run: "fst (buildFn stat_failure_ctx []) = Ret None"
  by (simp add: buildFn_def buildFn_relocate_def buildFn_strategy_def register_web_process_def
      extractPackageNameInDir_def createMainGoMod_def createMainGoMod_rest_def
      frameworkSpecifiedVersion_def createMainGoFile_def run_defs sample_defs path_defs
      const_defs Let_def semver_defs GE_def Compare_def)

theorem not_writable_failure_iff_witness:
  "buildFn_relocate read_only_ctx [] = (Ret (sample_layer, sample_fn), relocated)
   \<and> FileExists read_only_ctx relocated [filepath_Join [Source sample_fn, ''go.mod'']]
   \<and> Stat read_only_ctx relocated (filepath_Join [Source sample_fn, ''go.mod''])
       = Inr \<lparr>Mode = 0x124\<rparr>
   \<and> Perm (Mode \<lparr>Mode = 0x124\<rparr>) AND 0x80 = 0
   \<and> fst (buildFn read_only_ctx []) = Ret (Some (UserError ''go.mod exists but is not writable''))
   \<and> buildFn_relocate stat_failure_ctx [] = (Ret (sample_layer, sample_fn), relocated)
   \<and> FileExists stat_failure_ctx relocated [filepath_Join [Source sample_fn, ''go.mod'']]
   \<and> Stat stat_failure_ctx relocated (filepath_Join [Source sample_fn, ''go.mod''])
       = Inl (ToolError ''stat: permission denied'')
   \<and> buildFn stat_failure_ctx [] =
       andThen (createMainGoMod stat_failure_ctx sample_fn)
         (register_web_process stat_failure_ctx) relocated
   \<and> fst (buildFn stat_failure_ctx []) = Ret None
   \<and> buildFn_relocate quiet_ctx [] = (Ret (sample_layer, sample_fn), relocated)
   \<and> \<not> FileExists quiet_ctx relocated [filepath_Join [Source sample_fn, ''go.mod'']]
   \<and> fst (buildFn quiet_ctx []) \<noteq> Ret (Some (UserError ''go.mod exists but is not writable''))"
proof -
  have r: "buildFn_relocate read_only_ctx [] = (Ret (sample_layer, sample_fn), relocated)"
    unfolding read_only_ctx_def by (rule relocate_run)
  have f: "buildFn_relocate stat_failure_ctx [] = (Ret (sample_layer, sample_fn), relocated)"
    unfolding stat_failure_ctx_def by (rule relocate_run)
  have q: "buildFn_relocate quiet_ctx [] = (Ret (sample_layer, sample_fn), relocated)"
    unfolding quiet_ctx_def by (rule relocate_run)
  have r1: "FileExists read_only_ctx relocated [filepath_Join [Source sample_fn, ''go.mod'']]"
    "Stat read_only_ctx relocated (filepath_Join [Source sample_fn, ''go.mod''])
       = Inr \<lparr>Mode = 0x124\<rparr>"
    by (simp_all add: go_mod_path read_only_ctx_def sample_ctx_def only_go_mod_def
        stat_read_only_def)
  have r2: "Perm (Mode \<lparr>Mode = 0x124\<rparr>) AND 0x80 = 0"
    by (simp add: Perm_def)
  have f1: "FileExists stat_failure_ctx relocated [filepath_Join [Source sample_fn, ''go.mod'']]"
    "Stat stat_failure_ctx relocated (filepath_Join [Source sample_fn, ''go.mod''])
       = Inl (ToolError ''stat: permission denied'')"
    by (simp_all add: go_mod_path stat_failure_ctx_def sample_ctx_def only_go_mod_def
        stat_failure_def)
  have q1: "\<not> FileExists quiet_ctx relocated [filepath_Join [Source sample_fn, ''go.mod'']]"
    by (simp add: quiet_ctx_def sample_ctx_def no_files_def)
  from not_writable_failure_iff [OF r] r1 r2
  have R: "fst (buildFn read_only_ctx []) =
      Ret (Some (UserError ''go.mod exists but is not writable''))"
    by blast
  from not_writable_failure_iff [OF f] f1
  have F: "buildFn stat_failure_ctx [] =
       andThen (createMainGoMod stat_failure_ctx sample_fn)
         (register_web_process stat_failure_ctx) relocated"
    by blast
  from not_writable_failure_iff [OF q] q1
  have Q: "fst (buildFn quiet_ctx []) \<noteq>
      Ret (Some (UserError ''go.mod exists but is not writable''))"
    by blast
  from r f q r1 r2 f1 q1 R F Q stat_failure_run show ?thesis by blast
qed

end
